theory Spec2Isabelle
  imports Main
begin

section \<open>Exceptions and the container's operations\<close>

text \<open>
  The exceptions of \<^verbatim>\<open>pandas/io/pytables.py\<close> that the modelled functions raise
  or let through. A function that can raise returns \<open>py_error + 'a\<close>, with \<open>Inl\<close>
  the exception. \<open>StringSizeError itemsize cname limit\<close> is the ValueError of
  \<^verbatim>\<open>validate_col\<close>, whose message names the size to store, the column and the size
  the column is limited to.
\<close>

datatype py_error =
    ValueError
  | TypeError
  | IndexError
  | KeyError
  | NameError
  | ZeroDivisionError
  | OverflowError
  | AttributeError
  | ClosedFileError
  | NotImplementedError
  | UnboundLocalError
  | PlainException
  | StringSizeError nat string nat

text \<open>
  The calls the module issues on the underlying table node, in the order issued:
  \<^verbatim>\<open>table.append(rows)\<close>, \<^verbatim>\<open>table.flush()\<close>,
  \<^verbatim>\<open>table.remove_rows(start=..., stop=...)\<close> and
  \<^verbatim>\<open>_handle.remove_node(group, recursive=True)\<close>.
\<close>

datatype 'r table_op =
    Append "'r list"
  | Flush
  | RemoveRows int int
  | RemoveNode

text \<open>
  The container is an external collaborator; its effect on the stored rows is modelled
  from the capability interface of the design ("append records to a table, flush, and
  remove contiguous row ranges"): a bound of a row range is clipped to the row count as
  a Python slice bound is, and the rows in \<open>[start, stop)\<close> are dropped. A removed
  node has no rows left (\<open>None\<close>). The model is meant for ranges with
  \<open>0 \<le> start \<le> stop\<close>: the container itself raises for a start above the stop and
  for a negative bound, which no property below depends on.
\<close>

definition slice_bound :: "int \<Rightarrow> nat \<Rightarrow> nat" where
  "slice_bound i n = (if i < 0 then nat (int n + i) else min (nat i) n)"

definition remove_rows :: "int \<Rightarrow> int \<Rightarrow> 'r list \<Rightarrow> 'r list" where
  "remove_rows start stop rows =
     (let a = slice_bound start (length rows); b = slice_bound stop (length rows)
      in if a < b then take a rows @ drop b rows else rows)"

fun apply_op :: "'r table_op \<Rightarrow> 'r list option \<Rightarrow> 'r list option" where
  "apply_op _ None = None"
| "apply_op (Append new) (Some rows) = Some (rows @ new)"
| "apply_op Flush (Some rows) = Some rows"
| "apply_op (RemoveRows start stop) (Some rows) = Some (remove_rows start stop rows)"
| "apply_op RemoveNode (Some rows) = None"

definition apply_ops :: "'r table_op list \<Rightarrow> 'r list option \<Rightarrow> 'r list option" where
  "apply_ops ops node = foldl (\<lambda>t op. apply_op op t) node ops"

text \<open>
  \<^verbatim>\<open>xs[start:end]\<close> for \<open>0 \<le> start\<close>: the slice is clipped at the end of the
  list.
\<close>

definition slice :: "nat \<Rightarrow> nat \<Rightarrow> 'a list \<Rightarrow> 'a list" where
  "slice a b xs = take (b - a) (drop a xs)"

section \<open>Row deletion: the runs of \<^verbatim>\<open>AppendableTable.delete\<close>\<close>

text \<open>
  A pandas \<^verbatim>\<open>Series\<close> of coordinates is a list of (index label, value) pairs
  in positional order. \<^verbatim>\<open>Series(values)\<close> labels the values \<open>0, 1, ...\<close>;
  \<^verbatim>\<open>sort_values()\<close> orders the pairs by value and keeps each value's label
  (equal values are kept in their order here; pandas leaves their order open, and the
  values are the same either way); \<^verbatim>\<open>diff()\<close> is positional, with NaN
  (\<open>None\<close>) first.
\<close>

type_synonym series = "(nat \<times> int) list"

definition Series :: "int list \<Rightarrow> series" where
  "Series vals = zip [0..<length vals] vals"

definition sort_values :: "series \<Rightarrow> series" where
  "sort_values s = sort_key snd s"

fun diff_from :: "int \<Rightarrow> series \<Rightarrow> (nat \<times> int option) list" where
  "diff_from p [] = []"
| "diff_from p ((l, v) # s) = (l, Some (v - p)) # diff_from v s"

fun diff :: "series \<Rightarrow> (nat \<times> int option) list" where
  "diff [] = []"
| "diff ((l, v) # s) = (l, None) # diff_from v s"

text \<open>\<^verbatim>\<open>list(diff[diff > 1].index)\<close>: the index labels of the entries whose
  difference exceeds one (NaN compares false).\<close>

definition gt_one :: "int option \<Rightarrow> bool" where
  "gt_one d = (case d of None \<Rightarrow> False | Some x \<Rightarrow> 1 < x)"

definition diff_groups :: "(nat \<times> int option) list \<Rightarrow> nat list" where
  "diff_groups d = map fst (filter (\<lambda>p. gt_one (snd p)) d)"

text \<open>The three adjustments of \<^verbatim>\<open>groups\<close> (lines 4306 to 4316).\<close>

definition fix_groups :: "nat list \<Rightarrow> nat \<Rightarrow> nat list" where
  "fix_groups groups ln =
     (let g0 = (if groups = [] then [0] else groups);
          g1 = (if last g0 \<noteq> ln then g0 @ [ln] else g0);
          g2 = (if hd g1 \<noteq> 0 then 0 # g1 else g1)
      in g2)"

text \<open>
  The loop \<^verbatim>\<open>for g in reversed(groups)\<close>: \<^verbatim>\<open>sorted_series.take(range(g, pg))\<close>
  is positional and raises IndexError for a position beyond the series; on an empty
  range \<^verbatim>\<open>rows.index[0]\<close> raises IndexError. The labels of a series are distinct,
  so \<^verbatim>\<open>rows[rows.index[0]]\<close> is the first value taken and
  \<^verbatim>\<open>rows[rows.index[-1]]\<close> the last. The coordinates are 64-bit integers in the
  code; they are unbounded here, so the wrap-around of \<^verbatim>\<open>+ 1\<close> at the largest
  coordinate is not modelled.
\<close>

fun remove_groups :: "series \<Rightarrow> nat list \<Rightarrow> nat \<Rightarrow> 'r table_op list \<times> py_error option" where
  "remove_groups ss [] pg = ([], None)"
| "remove_groups ss (g # gs) pg =
     (if length ss < pg \<or> pg \<le> g then ([], Some IndexError)
      else (case remove_groups ss gs g of
              (ops, e) \<Rightarrow> (RemoveRows (snd (ss ! g)) (snd (ss ! (pg - 1)) + 1) # ops, e)))"

text \<open>Lines 4296 to 4330 of \<^verbatim>\<open>delete\<close>: from the selected coordinates to the
  operations issued and the number returned; the flush follows the loop.\<close>

definition delete_coords :: "int list \<Rightarrow> 'r table_op list \<times> (py_error + nat)" where
  "delete_coords vals =
     (let sorted_series = sort_values (Series vals);
          ln = length sorted_series
      in if ln = 0 then ([], Inr ln)
         else
           (let groups = fix_groups (diff_groups (diff sorted_series)) ln;
                pg = last groups
            in case remove_groups sorted_series (rev (butlast groups)) pg of
                 (ops, Some e) \<Rightarrow> (ops, Inl e)
               | (ops, None) \<Rightarrow> (ops @ [Flush], Inr ln)))"

text \<open>
  The runs as the design states them, for comparison: the maximal runs of consecutive
  coordinates of an ascending list, a run ending wherever the next coordinate is more
  than one above; and the operation that removes a run.
\<close>

fun runs :: "int list \<Rightarrow> int list list" where
  "runs [] = []"
| "runs [x] = [[x]]"
| "runs (x # y # xs) =
     (if 1 < y - x then [x] # runs (y # xs)
      else (case runs (y # xs) of [] \<Rightarrow> [[x]] | r # rs \<Rightarrow> (x # r) # rs))"

definition run_op :: "int list \<Rightarrow> 'r table_op" where
  "run_op r = RemoveRows (hd r) (last r + 1)"

text \<open>
  Three functions for the proof that the loop follows the runs: the positions, counted
  from \<open>k\<close>, at which a list steps by more than one from its predecessor (the first
  predecessor is \<open>p\<close>); the segments of a list between ascending cut positions, the
  last one ending at \<open>n\<close>; and the segments as the loop visits them, last first.
\<close>

fun gaps_from :: "int \<Rightarrow> nat \<Rightarrow> int list \<Rightarrow> nat list" where
  "gaps_from p k [] = []"
| "gaps_from p k (x # xs) = (if 1 < x - p then [k] else []) @ gaps_from x (Suc k) xs"

fun segs :: "nat list \<Rightarrow> nat \<Rightarrow> 'a list \<Rightarrow> 'a list list" where
  "segs [] n ys = []"
| "segs [c] n ys = [slice c n ys]"
| "segs (c # c' # cs) n ys = slice c c' ys # segs (c' # cs) n ys"

fun rsegs :: "nat list \<Rightarrow> nat \<Rightarrow> 'a list \<Rightarrow> 'a list list" where
  "rsegs [] pg ys = []"
| "rsegs (g # gs) pg ys = slice g pg ys # rsegs gs g ys"

section \<open>The selection engine: \<^verbatim>\<open>Selection\<close>\<close>

text \<open>
  The \<^verbatim>\<open>where\<close> argument as the module sees it. \<^verbatim>\<open>lib.infer_dtype\<close> and
  \<^verbatim>\<open>np.asarray\<close> are library code, so a list-like is given with its inferred
  element type: a boolean mask, integer positions, or any other list-like of items
  (terms, strings; \<open>None\<close> for a Python None item). \<open>WTerm\<close> is a single
  expression, which is not list-like.
\<close>

datatype 'e where_t =
    WNone
  | WMask "bool list"
  | WCoords "int list"
  | WTerms "'e option list"
  | WTerm 'e

text \<open>
  The expression collaborator (\<^verbatim>\<open>pandas.core.computation.pytables\<close>) is not part
  of the module; it is a parameter: \<^verbatim>\<open>maybe_expression\<close>, the constructor
  \<^verbatim>\<open>Term = PyTablesExpr\<close> on one item, the length of an expression, the constructor
  as \<^verbatim>\<open>generate\<close> calls it on the whole \<^verbatim>\<open>where\<close>, and
  \<^verbatim>\<open>terms.evaluate()\<close> giving the condition and the residual filter.
\<close>

record ('e, 't, 'c, 'f) expr_api =
  maybe_expression :: "'e \<Rightarrow> bool"
  Term :: "'e \<Rightarrow> 'e"
  expr_len :: "'e \<Rightarrow> nat"
  PyTablesExpr :: "'e where_t \<Rightarrow> py_error + 't"
  evaluate :: "'t \<Rightarrow> py_error + ('c option \<times> 'f option)"

record ('t, 'c, 'f) selection =
  sel_start :: "int option"
  sel_stop :: "int option"
  condition :: "'c option"
  filter_ :: "'f option"
  terms :: "'t option"
  coordinates :: "int list option"

text \<open>\<^verbatim>\<open>np.arange(start, stop)\<close>.\<close>

definition arange :: "int \<Rightarrow> int \<Rightarrow> int list" where
  "arange start stop = [start..stop - 1]"

text \<open>
  The body of the \<^verbatim>\<open>try\<close> block of \<^verbatim>\<open>Selection.__init__\<close> (lines 4883 to
  4900): the value of \<^verbatim>\<open>self.coordinates\<close> it leaves, or the exception it raises.
  Indexing \<^verbatim>\<open>np.arange(start, stop)\<close> with a boolean mask of another length raises
  IndexError in numpy.
\<close>

definition infer_coordinates ::
  "nat \<Rightarrow> 'e where_t \<Rightarrow> int option \<Rightarrow> int option \<Rightarrow> py_error + int list option" where
  "infer_coordinates nrows wh start stop =
     (case wh of
        WMask m \<Rightarrow>
          (let s = (case start of None \<Rightarrow> 0 | Some s \<Rightarrow> s);
               e = (case stop of None \<Rightarrow> int nrows | Some e \<Rightarrow> e);
               r = arange s e
           in if length m \<noteq> length r then Inl IndexError
              else Inr (Some (map fst (filter snd (zip r m)))))
      | WCoords w \<Rightarrow>
          (if (case start of None \<Rightarrow> False | Some s \<Rightarrow> list_ex (\<lambda>x. x < s) w)
              \<or> (case stop of None \<Rightarrow> False | Some e \<Rightarrow> list_ex (\<lambda>x. e \<le> x) w)
           then Inl ValueError
           else Inr (Some w))
      | _ \<Rightarrow> Inr None)"

text \<open>\<^verbatim>\<open>Selection.generate\<close>: a NameError of the constructor becomes a ValueError.\<close>

definition generate :: "('e, 't, 'c, 'f) expr_api \<Rightarrow> 'e where_t \<Rightarrow> py_error + 't option" where
  "generate api wh =
     (case wh of
        WNone \<Rightarrow> Inr None
      | _ \<Rightarrow> (case PyTablesExpr api wh of
                Inl NameError \<Rightarrow> Inl ValueError
              | Inl e \<Rightarrow> Inl e
              | Inr t \<Rightarrow> Inr (Some t)))"

text \<open>Lines 4905 to 4911: taken when \<^verbatim>\<open>self.coordinates\<close> is None.\<close>

definition init_terms ::
  "('e, 't, 'c, 'f) expr_api \<Rightarrow> 'e where_t \<Rightarrow> int option \<Rightarrow> int option
     \<Rightarrow> py_error + ('t, 'c, 'f) selection" where
  "init_terms api wh start stop =
     (case generate api wh of
        Inl e \<Rightarrow> Inl e
      | Inr None \<Rightarrow>
          Inr \<lparr>sel_start = start, sel_stop = stop, condition = None, filter_ = None,
               terms = None, coordinates = None\<rparr>
      | Inr (Some t) \<Rightarrow>
          (case evaluate api t of
             Inl e \<Rightarrow> Inl e
           | Inr (c, f) \<Rightarrow>
               Inr \<lparr>sel_start = start, sel_stop = stop, condition = c, filter_ = f,
                    terms = Some t, coordinates = None\<rparr>))"

text \<open>
  \<^verbatim>\<open>Selection.__init__\<close>. The \<^verbatim>\<open>try\<close> block is left by
  \<^verbatim>\<open>except ValueError: pass\<close>: a ValueError raised inside it leaves
  \<^verbatim>\<open>self.coordinates\<close> None, and any other exception propagates.
\<close>

definition Selection ::
  "('e, 't, 'c, 'f) expr_api \<Rightarrow> nat \<Rightarrow> 'e where_t \<Rightarrow> int option \<Rightarrow> int option
     \<Rightarrow> py_error + ('t, 'c, 'f) selection" where
  "Selection api nrows wh start stop =
     (case infer_coordinates nrows wh start stop of
        Inl ValueError \<Rightarrow> init_terms api wh start stop
      | Inl e \<Rightarrow> Inl e
      | Inr None \<Rightarrow> init_terms api wh start stop
      | Inr (Some cs) \<Rightarrow>
          Inr \<lparr>sel_start = start, sel_stop = stop, condition = None, filter_ = None,
               terms = None, coordinates = Some cs\<rparr>)"

text \<open>
  The container's \<^verbatim>\<open>get_where_list(condition, start, stop, sort)\<close> is external:
  \<open>found\<close> gives the coordinates it finds for a condition within a row range, in the
  order it finds them, and \<^verbatim>\<open>sort=True\<close> sorts them.
\<close>

definition get_where_list ::
  "('c \<Rightarrow> int \<Rightarrow> int \<Rightarrow> int list) \<Rightarrow> 'c \<Rightarrow> int \<Rightarrow> int \<Rightarrow> bool \<Rightarrow> int list" where
  "get_where_list found c start stop sort_flag =
     (if sort_flag then sort (found c start stop) else found c start stop)"

text \<open>\<^verbatim>\<open>Selection.select_coords\<close>.\<close>

definition select_coords ::
  "('c \<Rightarrow> int \<Rightarrow> int \<Rightarrow> int list) \<Rightarrow> nat \<Rightarrow> ('t, 'c, 'f) selection \<Rightarrow> int list" where
  "select_coords found nrows sel =
     (let start = (case sel_start sel of
                     None \<Rightarrow> 0
                   | Some s \<Rightarrow> if s < 0 then s + int nrows else s);
          stop = (case sel_stop sel of
                    None \<Rightarrow> int nrows
                  | Some e \<Rightarrow> if e < 0 then e + int nrows else e)
      in case condition sel of
           Some c \<Rightarrow> get_where_list found c start stop True
         | None \<Rightarrow>
             (case coordinates sel of
                Some cs \<Rightarrow> cs
              | None \<Rightarrow> arange start stop))"

section \<open>Removing rows and nodes: \<^verbatim>\<open>_ensure_term\<close>, \<^verbatim>\<open>delete\<close>, \<^verbatim>\<open>HDFStore.remove\<close>\<close>

text \<open>\<^verbatim>\<open>len(where)\<close>.\<close>

definition where_len :: "('e, 't, 'c, 'f) expr_api \<Rightarrow> 'e where_t \<Rightarrow> nat" where
  "where_len api wh =
     (case wh of
        WNone \<Rightarrow> 0
      | WMask m \<Rightarrow> length m
      | WCoords w \<Rightarrow> length w
      | WTerms ts \<Rightarrow> length ts
      | WTerm e \<Rightarrow> expr_len api e)"

text \<open>
  \<^verbatim>\<open>_ensure_term\<close> (the leading underscore is dropped). A list or tuple loses its
  None items and has each item that may be an expression wrapped in a \<^verbatim>\<open>Term\<close>;
  \<^verbatim>\<open>maybe_expression\<close> is false of a boolean or an integer, so a mask and a list
  of positions come back as they are. The last line turns an empty result into None.
\<close>

definition ensure_term :: "('e, 't, 'c, 'f) expr_api \<Rightarrow> 'e where_t \<Rightarrow> 'e where_t" where
  "ensure_term api wh =
     (let w = (case wh of
                 WTerms ts \<Rightarrow>
                   WTerms (map (\<lambda>x. Some (if maybe_expression api x then Term api x else x))
                             (List.map_filter (\<lambda>x. x) ts))
               | WTerm e \<Rightarrow> (if maybe_expression api e then WTerm (Term api e) else WTerm e)
               | _ \<Rightarrow> wh)
      in if w = WNone \<or> where_len api w \<noteq> 0 then w else WNone)"

text \<open>
  \<^verbatim>\<open>AppendableTable.delete\<close> on a node whose table holds \<open>rows\<close> (\<open>None\<close>: the
  group has no table, so \<^verbatim>\<open>self.nrows\<close> is None and \<^verbatim>\<open>infer_axes()\<close> is
  false). It gives the operations issued and the value returned. The container's
  \<^verbatim>\<open>remove_rows\<close> returns the number of rows it removed, and takes a start of
  None for the first row.
\<close>

definition delete ::
  "('e, 't, 'c, 'f) expr_api \<Rightarrow> ('c \<Rightarrow> int \<Rightarrow> int \<Rightarrow> int list) \<Rightarrow> 'r list option
     \<Rightarrow> 'e where_t \<Rightarrow> int option \<Rightarrow> int option
     \<Rightarrow> 'r table_op list \<times> (py_error + nat option)" where
  "delete api found node wh start stop =
     (if wh = WNone \<or> where_len api wh = 0 then
        (if start = None \<and> stop = None then ([RemoveNode], Inr (map_option length node))
         else
           (case node of
              None \<Rightarrow> ([], Inl AttributeError)
            | Some rows \<Rightarrow>
                (let e = (case stop of None \<Rightarrow> int (length rows) | Some e \<Rightarrow> e);
                     s = (case start of None \<Rightarrow> 0 | Some s \<Rightarrow> s)
                 in ([RemoveRows s e, Flush],
                     Inr (Some (length rows - length (remove_rows s e rows)))))))
      else
        (case node of
           None \<Rightarrow> ([], Inr None)
         | Some rows \<Rightarrow>
             (case Selection api (length rows) wh start stop of
                Inl e \<Rightarrow> ([], Inl e)
              | Inr sel \<Rightarrow>
                  (case delete_coords (select_coords found (length rows) sel) of
                     (ops, Inl e) \<Rightarrow> (ops, Inl e)
                   | (ops, Inr ln) \<Rightarrow> (ops, Inr (Some ln))))))"

text \<open>
  The store: whether the file is open, and the node under each key. A node is a table
  with its rows, a fixed-format object, or a group that no storer can be created for
  (\<^verbatim>\<open>_create_storer\<close> raises TypeError). Keys are flat: the children of a removed
  node are not modelled.
\<close>

datatype ('r, 'b) node = TableNode "'r list" | FixedNode 'b | PlainNode

record ('r, 'b) store =
  is_open :: bool
  nodes :: "string \<Rightarrow> ('r, 'b) node option"

definition norm_key :: "string \<Rightarrow> string" where
  "norm_key key = (if take 1 key = ''/'' then key else ''/'' @ key)"

definition get_node :: "('r, 'b) store \<Rightarrow> string \<Rightarrow> py_error + ('r, 'b) node option" where
  "get_node st key = (if \<not> is_open st then Inl ClosedFileError else Inr (nodes st (norm_key key)))"

definition get_storer :: "('r, 'b) store \<Rightarrow> string \<Rightarrow> py_error + ('r, 'b) node" where
  "get_storer st key =
     (case get_node st key of
        Inl e \<Rightarrow> Inl e
      | Inr None \<Rightarrow> Inl KeyError
      | Inr (Some PlainNode) \<Rightarrow> Inl TypeError
      | Inr (Some n) \<Rightarrow> Inr n)"

definition f_remove :: "('r, 'b) store \<Rightarrow> string \<Rightarrow> ('r, 'b) store" where
  "f_remove st key = st\<lparr>nodes := (nodes st)(norm_key key := None)\<rparr>"

text \<open>\<^verbatim>\<open>HDFStore.remove\<close>: the store afterwards, and the value returned or the
  exception raised.\<close>

definition remove ::
  "('e, 't, 'c, 'f) expr_api \<Rightarrow> ('c \<Rightarrow> int \<Rightarrow> int \<Rightarrow> int list) \<Rightarrow> ('r, 'b) store \<Rightarrow> string
     \<Rightarrow> 'e where_t \<Rightarrow> int option \<Rightarrow> int option
     \<Rightarrow> ('r, 'b) store \<times> (py_error + nat option)" where
  "remove api found st key where0 start stop =
     (let wh = ensure_term api where0
      in case get_storer st key of
           Inl KeyError \<Rightarrow> (st, Inl KeyError)
         | Inl e \<Rightarrow>
             (if wh \<noteq> WNone then (st, Inl ValueError)
              else (case get_node st key of
                      Inl e' \<Rightarrow> (st, Inl e')
                    | Inr (Some n) \<Rightarrow> (f_remove st key, Inr None)
                    | Inr None \<Rightarrow> (st, Inl UnboundLocalError)))
         | Inr s \<Rightarrow>
             (if wh = WNone \<and> start = None \<and> stop = None then (f_remove st key, Inr None)
              else
                (case s of
                   TableNode rows \<Rightarrow>
                     (case delete api found (Some rows) wh start stop of
                        (ops, r) \<Rightarrow>
                          (st\<lparr>nodes := (nodes st)
                               (norm_key key := map_option TableNode (apply_ops ops (Some rows)))\<rparr>,
                           r))
                 | _ \<Rightarrow> (st, Inl ValueError))))"

section \<open>Appending rows in chunks: \<^verbatim>\<open>write_data\<close>\<close>

text \<open>
  Lines 4163 to 4182: with \<^verbatim>\<open>dropna\<close>, the all-missing masks of the value blocks
  (one entry per row, computed by \<^verbatim>\<open>isna(a.data).all(axis=0)\<close>) are combined with
  \<^verbatim>\<open>&\<close>; without it, or with no value block, there is no mask.
\<close>

definition consolidate_masks :: "bool \<Rightarrow> bool list list \<Rightarrow> bool list option" where
  "consolidate_masks dropna masks =
     (if dropna then
        (case masks of
           [] \<Rightarrow> None
         | m # ms \<Rightarrow> Some (foldl (\<lambda>a b. map2 (\<and>) a b) m ms))
      else None)"

text \<open>The rows of a chunk that the mask does not mark: \<^verbatim>\<open>rows[~mask]\<close>.\<close>

definition unmasked :: "'r list \<Rightarrow> bool list option \<Rightarrow> 'r list" where
  "unmasked rows msk =
     (case msk of
        None \<Rightarrow> rows
      | Some m \<Rightarrow> map fst (filter (\<lambda>p. \<not> snd p) (zip rows m)))"

text \<open>
  \<^verbatim>\<open>write_data_chunk\<close>. A row stands for the index fields and value fields of one
  record; \<open>vsizes\<close> holds, for each value block, the number of elements of one row
  of the block, so that \<^verbatim>\<open>np.prod(v.shape)\<close> is the chunk length times that
  number. The function returns at once when a value block is empty.
\<close>

definition write_data_chunk :: "'r list \<Rightarrow> bool list option \<Rightarrow> nat list \<Rightarrow> 'r table_op list" where
  "write_data_chunk chunk msk vsizes =
     (if list_ex (\<lambda>w. length chunk * w = 0) vsizes then []
      else (let rows = unmasked chunk msk
            in if rows \<noteq> [] then [Append rows, Flush] else []))"

text \<open>\<^verbatim>\<open>end_i = min((i + 1) * chunksize, nrows)\<close>.\<close>

definition chunk_end :: "nat \<Rightarrow> nat \<Rightarrow> nat \<Rightarrow> nat" where
  "chunk_end cs nrows i = min ((i + 1) * cs) nrows"

text \<open>The loop of lines 4218 to 4229 over \<^verbatim>\<open>range(chunks)\<close>, with its
  \<^verbatim>\<open>break\<close>.\<close>

fun write_chunks ::
  "nat \<Rightarrow> 'r list \<Rightarrow> bool list option \<Rightarrow> nat list \<Rightarrow> nat list \<Rightarrow> 'r table_op list" where
  "write_chunks cs rows msk vsizes [] = []"
| "write_chunks cs rows msk vsizes (i # is) =
     (let start_i = i * cs; end_i = chunk_end cs (length rows) i
      in if end_i \<le> start_i then []
         else write_data_chunk (slice start_i end_i rows) (map_option (slice start_i end_i) msk)
                vsizes
              @ write_chunks cs rows msk vsizes is)"

text \<open>
  \<^verbatim>\<open>write_data\<close> from line 4212 on, for the \<open>rows\<close> built from the broadcast
  indexes and reshaped values and the mask that \<open>consolidate_masks\<close> gives. \<^verbatim>\<open>np.empty\<close> of a negative length raises
  ValueError. The row count is a numpy integer, so for a chunk size of zero
  \<^verbatim>\<open>nrows / chunksize\<close> is infinite, or not a number when there is no row, and
  \<^verbatim>\<open>int\<close> of it raises OverflowError, or ValueError.
  \<^verbatim>\<open>int(nrows / chunksize)\<close> is a float division truncated; for a positive
  chunk size it is the integer quotient (a quotient rounded up by the float division
  would only add iterations that \<^verbatim>\<open>break\<close> at once).
\<close>

definition write_data ::
  "int option \<Rightarrow> 'r list \<Rightarrow> bool list option \<Rightarrow> nat list \<Rightarrow> py_error + 'r table_op list" where
  "write_data chunksize rows msk vsizes =
     (let cs = (case chunksize of None \<Rightarrow> 100000 | Some c \<Rightarrow> c);
          nrows = int (length rows)
      in if min cs nrows < 0 then Inl ValueError
         else if cs = 0 then (if nrows = 0 then Inl ValueError else Inl OverflowError)
         else Inr (write_chunks (nat cs) rows msk vsizes [0..<nat (nrows div cs) + 1]))"

text \<open>
  The chunks as the design states them, for comparison: chunk \<open>i\<close> is the rows
  \<open>[i * cs, min ((i + 1) * cs) nrows)\<close>; the rows of it that the mask does not mark
  are appended and the table is flushed, unless there is none.
\<close>

definition chunk_ops :: "nat \<Rightarrow> 'r list \<Rightarrow> bool list option \<Rightarrow> nat \<Rightarrow> 'r table_op list" where
  "chunk_ops cs rows msk i =
     (let a = i * cs; b = chunk_end cs (length rows) i;
          kept = unmasked (slice a b rows) (map_option (slice a b) msk)
      in if kept \<noteq> [] then [Append kept, Flush] else [])"

section \<open>Informational attributes: \<^verbatim>\<open>update_info\<close>\<close>

text \<open>
  The \<^verbatim>\<open>info\<close> dictionary maps a column name to a dictionary \<^verbatim>\<open>idx\<close> from
  info keys to values; a key may be present with the value None (\<open>Some None\<close>).
  The attributes of the column object are read with \<^verbatim>\<open>getattr(self, key, None)\<close>.
  A warning records the key, the existing value and the new one.
\<close>

type_synonym 'v idx = "string \<Rightarrow> 'v option option"
type_synonym 'v info = "string \<Rightarrow> 'v idx option"
type_synonym 'v col_attrs = "string \<Rightarrow> 'v option"

datatype 'v warning = AttributeConflictWarning string "'v option" 'v

text \<open>\<^verbatim>\<open>_get_info\<close>: the dictionary of a name, created empty when missing.\<close>

definition get_info :: "'v info \<Rightarrow> string \<Rightarrow> 'v info \<times> 'v idx" where
  "get_info info name =
     (case info name of
        Some idx \<Rightarrow> (info, idx)
      | None \<Rightarrow> (info(name \<mapsto> (\<lambda>k. None)), (\<lambda>k. None)))"

text \<open>The dictionary that \<^verbatim>\<open>_get_info(info, name)\<close> returns.\<close>

definition idx_of :: "'v info \<Rightarrow> string \<Rightarrow> 'v idx" where
  "idx_of info name = snd (get_info info name)"

text \<open>\<^verbatim>\<open>idx.get(key)\<close>.\<close>

definition idx_get :: "'v idx \<Rightarrow> string \<Rightarrow> 'v option" where
  "idx_get idx key = (case idx key of None \<Rightarrow> None | Some v \<Rightarrow> v)"

text \<open>The test of line 1972.\<close>

definition info_conflict :: "'v idx \<Rightarrow> string \<Rightarrow> 'v option \<Rightarrow> bool" where
  "info_conflict idx key val = (idx key \<noteq> None \<and> val \<noteq> None \<and> idx_get idx key \<noteq> val)"

text \<open>One iteration of the loop of \<^verbatim>\<open>update_info\<close> for a key; the state is the
  \<^verbatim>\<open>info\<close> dictionary, the attributes of the column and the warnings so far.\<close>

definition update_info_key ::
  "string \<Rightarrow> string \<Rightarrow> 'v info \<times> 'v col_attrs \<times> 'v warning list
     \<Rightarrow> ('v info \<times> 'v col_attrs \<times> 'v warning list) \<times> py_error option" where
  "update_info_key name key st =
     (case st of (info, attrs, ws) \<Rightarrow>
        (let val = attrs key;
             (info1, idx) = get_info info name;
             existing_value = idx_get idx key
         in if info_conflict idx key val then
              (if key \<in> set [''freq'', ''index_name''] then
                 ((info1(name \<mapsto> idx(key \<mapsto> None)), attrs(key := None),
                   ws @ [AttributeConflictWarning key existing_value (the val)]), None)
               else ((info1, attrs, ws), Some ValueError))
            else
              (if val \<noteq> None \<or> existing_value \<noteq> None
               then ((info1(name \<mapsto> idx(key \<mapsto> val)), attrs, ws), None)
               else ((info1, attrs, ws), None))))"

text \<open>\<^verbatim>\<open>update_info\<close>: the loop over \<^verbatim>\<open>self._info_fields\<close>; an exception
  ends it and leaves the state as it is then.\<close>

fun update_info_keys ::
  "string \<Rightarrow> string list \<Rightarrow> 'v info \<times> 'v col_attrs \<times> 'v warning list
     \<Rightarrow> ('v info \<times> 'v col_attrs \<times> 'v warning list) \<times> py_error option" where
  "update_info_keys name [] st = (st, None)"
| "update_info_keys name (key # keys) st =
     (case update_info_key name key st of
        (st', Some e) \<Rightarrow> (st', Some e)
      | (st', None) \<Rightarrow> update_info_keys name keys st')"

text \<open>The \<^verbatim>\<open>_info_fields\<close> of \<^verbatim>\<open>IndexCol\<close> and of \<^verbatim>\<open>DataCol\<close>.\<close>

definition IndexCol_info_fields :: "string list" where
  "IndexCol_info_fields = [''freq'', ''tz'', ''index_name'']"

definition DataCol_info_fields :: "string list" where
  "DataCol_info_fields = [''tz'', ''ordered'']"

definition update_info ::
  "string list \<Rightarrow> string \<Rightarrow> 'v info \<Rightarrow> 'v col_attrs
     \<Rightarrow> ('v info \<times> 'v col_attrs \<times> 'v warning list) \<times> py_error option" where
  "update_info info_fields name info attrs = update_info_keys name info_fields (info, attrs, [])"

section \<open>Reading a fixed-format object: \<^verbatim>\<open>validate_read\<close>, \<^verbatim>\<open>read\<close>\<close>

text \<open>
  The keyword dictionary maps a name to its value; a name may be present with the value
  None. \<^verbatim>\<open>kwargs.pop(name, None)\<close> gives the value and the dictionary without the
  name.
\<close>

type_synonym 'a kwargs = "string \<Rightarrow> 'a option option"

definition pop :: "'a kwargs \<Rightarrow> string \<Rightarrow> 'a option \<times> 'a kwargs" where
  "pop kw name = ((case kw name of None \<Rightarrow> None | Some v \<Rightarrow> v), kw(name := None))"

text \<open>\<^verbatim>\<open>GenericFixed.validate_read\<close>.\<close>

definition validate_read :: "'a kwargs \<Rightarrow> py_error + 'a kwargs" where
  "validate_read kwargs =
     (case pop kwargs ''columns'' of
        (Some c, kw1) \<Rightarrow> Inl TypeError
      | (None, kw1) \<Rightarrow>
          (case pop kw1 ''where'' of
             (Some w, kw2) \<Rightarrow> Inl TypeError
           | (None, kw2) \<Rightarrow> Inr kw2))"

text \<open>
  \<^verbatim>\<open>node[start:stop]\<close> on a stored array: a Python slice with optional bounds,
  a negative bound counting from the end.
\<close>

definition py_slice :: "int option \<Rightarrow> int option \<Rightarrow> 'a list \<Rightarrow> 'a list" where
  "py_slice start stop xs =
     (let n = length xs;
          lo = (case start of None \<Rightarrow> 0 | Some s \<Rightarrow> slice_bound s n);
          hi = (case stop of None \<Rightarrow> n | Some e \<Rightarrow> slice_bound e n)
      in slice lo hi xs)"


text \<open>
  A stored array node holds its elements, or is the sentinel that
  \<^verbatim>\<open>write_array_empty\<close> writes for an array with an axis of length zero (the node
  with the \<^verbatim>\<open>shape\<close> attribute; only such nodes have it). The conversions of the
  element types (time zones, durations, decoding) are left out: a node holds the
  elements as they are read. An array of object type is stored in a variable-length
  node and read by \<^verbatim>\<open>node[0][start:stop]\<close>, the same slice. A two-dimensional
  array is stored transposed, row by row, and read back transposed: it is given here by
  its rows, and an empty one has no rows.
\<close>

datatype 'a array_node = ArrayNode "'a list" | EmptyNode


text \<open>\<^verbatim>\<open>read_array\<close>: the sentinel is read as the empty array whatever the range.\<close>

definition read_array :: "'a array_node \<Rightarrow> int option \<Rightarrow> int option \<Rightarrow> 'a list" where
  "read_array nd start stop =
     (case nd of ArrayNode xs \<Rightarrow> py_slice start stop xs | EmptyNode \<Rightarrow> [])"

text \<open>
  The node of an index array carries the name attribute. A stored index is regular (one
  node), multi (for each level the node of the level's values and the node of its
  codes), or of a variety that \<^verbatim>\<open>read_index\<close> does not recognise. An index read
  back is a regular index with its values and name, or what is handed to
  \<^verbatim>\<open>MultiIndex(levels, codes, names, verify_integrity=True)\<close>.
\<close>

record 'k index_node =
  in_data :: "'k array_node"
  in_name :: "string option"


datatype 'k index =
    RegularIndex "'k list" "string option"
  | MultiIndex "'k list list" "int list list" "string option list"

text \<open>\<^verbatim>\<open>read_index_node\<close>: the name and the values.\<close>

definition read_index_node ::
  "'k index_node \<Rightarrow> int option \<Rightarrow> int option \<Rightarrow> string option \<times> 'k list" where
  "read_index_node nd start stop = (in_name nd, read_array (in_data nd) start stop)"

text \<open>
  \<^verbatim>\<open>read_multi_index\<close>: the values and the codes of every level are read with the
  same start and stop. The integrity check of the \<^verbatim>\<open>MultiIndex\<close> constructor is
  outside the module; \<open>verify\<close> gives the exception it raises for the levels and
  codes, if any.
\<close>

definition read_multi_index ::
  "('k list list \<Rightarrow> int list list \<Rightarrow> py_error option) \<Rightarrow> ('k index_node \<times> int array_node) list
     \<Rightarrow> int option \<Rightarrow> int option \<Rightarrow> py_error + 'k index" where
  "read_multi_index verify lvls start stop =
     (let levels = map (\<lambda>l. snd (read_index_node (fst l) start stop)) lvls;
          names = map (\<lambda>l. fst (read_index_node (fst l) start stop)) lvls;
          codes = map (\<lambda>l. read_array (snd l) start stop) lvls
      in case verify levels codes of
           Some e \<Rightarrow> Inl e
         | None \<Rightarrow> Inr (MultiIndex levels codes names))"














section \<open>String columns: \<^verbatim>\<open>set_atom_string\<close> and \<^verbatim>\<open>validate_col\<close>\<close>

text \<open>
  \<^verbatim>\<open>_convert_string_array\<close> without an item size: the strings are encoded when an
  encoding is given and there is data, and the item size is the longest length, at
  least one. The encoder (\<^verbatim>\<open>Series.str.encode\<close>) is a parameter.
\<close>

definition max_len_string_array :: "string list \<Rightarrow> nat" where
  "max_len_string_array xs = foldr (\<lambda>x m. max (length x) m) xs 0"

definition convert_string_array ::
  "(string \<Rightarrow> string) option \<Rightarrow> string list \<Rightarrow> string list \<times> nat" where
  "convert_string_array encoding data =
     (let encoded = (case encoding of
                       Some enc \<Rightarrow> (if data \<noteq> [] then map enc data else data)
                     | None \<Rightarrow> data)
      in (encoded, max 1 (max_len_string_array encoded)))"

text \<open>
  An existing column as \<^verbatim>\<open>validate_col\<close> reads it: its kind, its on-disk name and
  the item size of its column in the table description (\<open>None\<close> when the description
  has no such column).
\<close>

record existing_col =
  ec_kind :: string
  ec_cname :: string
  ec_col_itemsize :: "nat option"

text \<open>\<^verbatim>\<open>IndexCol.validate_col(itemsize)\<close> with an item size given.\<close>

definition validate_col :: "existing_col \<Rightarrow> nat \<Rightarrow> py_error + nat option" where
  "validate_col ec itemsize =
     (if ec_kind ec = ''string'' then
        (case ec_col_itemsize ec of
           Some c \<Rightarrow> (if c < itemsize then Inl (StringSizeError itemsize (ec_cname ec) c)
                     else Inr (Some c))
         | None \<Rightarrow> Inr None)
      else Inr None)"

text \<open>
  The \<^verbatim>\<open>min_itemsize\<close> argument: None, an integer, or a dictionary from column
  names to integers. Python's \<^verbatim>\<open>or\<close> skips a value that is None or zero.
\<close>

datatype min_itemsize = MinNone | MinInt nat | MinDict "string \<Rightarrow> nat option"

definition py_or :: "nat option \<Rightarrow> nat option \<Rightarrow> nat option" where
  "py_or a b = (case a of None \<Rightarrow> b | Some x \<Rightarrow> if x = 0 then b else a)"

definition min_itemsize_for :: "min_itemsize \<Rightarrow> string \<Rightarrow> nat" where
  "min_itemsize_for mi name =
     (case mi of
        MinNone \<Rightarrow> 0
      | MinInt n \<Rightarrow> n
      | MinDict d \<Rightarrow> (case py_or (py_or (d name) (d ''values'')) (Some 0) of
                       Some n \<Rightarrow> n
                     | None \<Rightarrow> 0))"

text \<open>
  The block handed to \<^verbatim>\<open>set_atom_string\<close>, after \<^verbatim>\<open>fillna\<close>: what
  \<^verbatim>\<open>lib.infer_dtype\<close> says of all its data and of each column (with the column's
  item), and its strings.
\<close>

record string_block =
  sb_inferred :: string
  sb_columns :: "(string \<times> string) list"
  sb_data :: "string list"

text \<open>The loop of lines 2281 to 2289: the first column that is not inferred as
  strings raises TypeError.\<close>

definition check_columns :: "(string \<times> string) list \<Rightarrow> py_error option" where
  "check_columns cols = (if list_ex (\<lambda>c. snd c \<noteq> ''string'') cols then Some TypeError else None)"

text \<open>
  \<^verbatim>\<open>DataCol.set_atom_string\<close>: the item size chosen for the column of name
  \<open>name\<close>. Comparing the None that \<^verbatim>\<open>validate_col\<close> returns for a column that
  is not a string column with an integer raises TypeError.
\<close>

definition set_atom_string ::
  "string \<Rightarrow> string_block \<Rightarrow> existing_col option \<Rightarrow> min_itemsize \<Rightarrow> (string \<Rightarrow> string) option
     \<Rightarrow> py_error + nat" where
  "set_atom_string name block existing mi encoding =
     (case (if sb_inferred block \<noteq> ''string'' then check_columns (sb_columns block) else None) of
        Some e \<Rightarrow> Inl e
      | None \<Rightarrow>
          (let probed = snd (convert_string_array encoding (sb_data block));
               itemsize = max (min_itemsize_for mi name) probed
           in case existing of
                None \<Rightarrow> Inr itemsize
              | Some ec \<Rightarrow>
                  (case validate_col ec itemsize of
                     Inl e \<Rightarrow> Inl e
                   | Inr None \<Rightarrow> Inl TypeError
                   | Inr (Some eci) \<Rightarrow> Inr (if itemsize < eci then eci else itemsize))))"

section \<open>Reading back a categorical: the category branch of \<^verbatim>\<open>DataCol.convert\<close>\<close>

text \<open>\<^verbatim>\<open>mask.astype(int).cumsum()\<close>.\<close>

fun cumsum_from :: "int \<Rightarrow> bool list \<Rightarrow> int list" where
  "cumsum_from acc [] = []"
| "cumsum_from acc (b # bs) = (acc + (if b then 1 else 0)) # cumsum_from (acc + (if b then 1 else 0)) bs"

definition cumsum :: "bool list \<Rightarrow> int list" where
  "cumsum bs = cumsum_from 0 bs"

text \<open>
  numpy's in-place \<^verbatim>\<open>a -= b\<close> on one-dimensional arrays: \<open>b\<close> must have the
  length of \<open>a\<close> or the length one, else the operands cannot be broadcast and
  ValueError is raised.
\<close>

definition isub :: "int list \<Rightarrow> int list \<Rightarrow> py_error + int list" where
  "isub a b =
     (if length b = length a then Inr (map2 (-) a b)
      else if length b = 1 then Inr (map (\<lambda>x. x - hd b) a)
      else Inl ValueError)"

text \<open>\<^verbatim>\<open>codes[sel] = new\<close> for a boolean selection of as many True entries as
  \<open>new\<close> has values.\<close>

fun put_selected :: "int list \<Rightarrow> bool list \<Rightarrow> int list \<Rightarrow> int list" where
  "put_selected [] sel new = []"
| "put_selected (c # cs) [] new = c # cs"
| "put_selected (c # cs) (True # sel) [] = c # cs"
| "put_selected (c # cs) (True # sel) (n # new) = n # put_selected cs sel new"
| "put_selected (c # cs) (False # sel) new = c # put_selected cs sel new"

text \<open>
  Lines 2457 to 2480: from the stored category list (\<open>None\<close> when the metadata is
  absent; a null category is \<open>None\<close>) and the stored codes to the codes and
  categories handed to \<^verbatim>\<open>Categorical.from_codes\<close>.
\<close>

definition convert_category ::
  "'a option list option \<Rightarrow> int list \<Rightarrow> py_error + (int list \<times> 'a list)" where
  "convert_category metadata codes =
     (case metadata of
        None \<Rightarrow> Inr (codes, [])
      | Some categories \<Rightarrow>
          (let msk = map (\<lambda>c. c = None) categories
           in if list_ex (\<lambda>b. b) msk then
                (let sel = map (\<lambda>c. c \<noteq> - 1) codes
                 in case isub (filter (\<lambda>c. c \<noteq> - 1) codes) (cumsum msk) of
                      Inl e \<Rightarrow> Inl e
                    | Inr new \<Rightarrow>
                        Inr (put_selected codes sel new, List.map_filter (\<lambda>c. c) categories))
              else Inr (codes, List.map_filter (\<lambda>c. c) categories)))"

text \<open>
  The recoding as the design states it, for comparison: the null categories are
  removed, a code of \<open>-1\<close> stays, and every other code is lowered by the number of
  null categories at positions up to the code.
\<close>

definition nulls_upto :: "'a option list \<Rightarrow> int \<Rightarrow> int" where
  "nulls_upto categories c = int (length (filter (\<lambda>x. x = None) (take (nat c + 1) categories)))"

definition recode_around_nulls :: "'a option list \<Rightarrow> int list \<Rightarrow> int list \<times> 'a list" where
  "recode_around_nulls categories codes =
     (map (\<lambda>c. if c = - 1 then - 1 else c - nulls_upto categories c) codes,
      List.map_filter (\<lambda>c. c) categories)"

section \<open>Appending to an existing table: \<^verbatim>\<open>Table.validate\<close> and \<^verbatim>\<open>AppendableTable.write\<close>\<close>

text \<open>
  A column descriptor, \<^verbatim>\<open>IndexCol\<close> or \<^verbatim>\<open>DataCol\<close> (\<open>c_is_data\<close>), with
  the fields the validation reads. For a data column \<open>c_values\<close> is the list of its
  items. \<open>c_names_ok\<close> says that \<^verbatim>\<open>validate_names\<close> passes (it raises only for
  a \<^verbatim>\<open>DataIndexableCol\<close> whose labels are not objects).
\<close>

record col =
  c_is_data :: bool
  c_name :: string
  c_cname :: string
  c_axis :: "nat option"
  c_pos :: "nat option"
  c_kind :: "string option"
  c_dtype :: "string option"
  c_values :: "string list"
  c_meta :: "string option"
  c_metadata :: "string list option"
  c_itemsize :: "nat option"
  c_names_ok :: bool

text \<open>\<^verbatim>\<open>IndexCol.__eq__\<close> and \<^verbatim>\<open>DataCol.__eq__\<close>.\<close>

definition IndexCol_eq :: "col \<Rightarrow> col \<Rightarrow> bool" where
  "IndexCol_eq a b =
     (c_name a = c_name b \<and> c_cname a = c_cname b \<and> c_axis a = c_axis b \<and> c_pos a = c_pos b)"

definition DataCol_eq :: "col \<Rightarrow> col \<Rightarrow> bool" where
  "DataCol_eq a b =
     (c_name a = c_name b \<and> c_cname a = c_cname b \<and> c_dtype a = c_dtype b \<and> c_pos a = c_pos b)"

text \<open>
  A persisted attribute is a string or a list of strings; a missing attribute and an
  attribute set to None both read as None. The table node holds the table-level
  attributes, the attributes of the columns (\<^verbatim>\<open><name>_kind\<close>,
  \<^verbatim>\<open><name>_dtype\<close>, \<^verbatim>\<open><name>_meta\<close>), the \<^verbatim>\<open>info\<close> attribute, the
  metadata side-tables, the item sizes of the columns of its description, and its rows.
\<close>

datatype attr = AStr string | AList "string list"

record ('r, 'i) ptable =
  pt_table_type :: string
  pt_index_cols :: "(nat \<times> string) list"
  pt_values_cols :: "string list"
  pt_non_index_axes :: "(nat \<times> string list) list"
  pt_attrs :: "string \<Rightarrow> attr option"
  pt_info :: 'i
  pt_meta :: "string \<Rightarrow> string list option"
  pt_itemsize :: "string \<Rightarrow> nat option"
  pt_rows :: "'r list"

definition kind_attr :: "string \<Rightarrow> string" where
  "kind_attr name = name @ ''_kind''"

definition dtype_attr :: "string \<Rightarrow> string" where
  "dtype_attr name = name @ ''_dtype''"

definition meta_attr :: "string \<Rightarrow> string" where
  "meta_attr name = name @ ''_meta''"

definition attr_str :: "attr option \<Rightarrow> string option" where
  "attr_str a = (case a of Some (AStr x) \<Rightarrow> Some x | _ \<Rightarrow> None)"

definition attr_list :: "attr option \<Rightarrow> string list" where
  "attr_list a = (case a of Some (AList xs) \<Rightarrow> xs | _ \<Rightarrow> [])"

text \<open>
  The axes of the existing table, as \<^verbatim>\<open>infer_axes\<close> rebuilds them from the
  persisted attributes (\<^verbatim>\<open>indexables\<close>, then \<^verbatim>\<open>get_attr\<close> of each column), for
  a table of the current format version: the index columns in order, then one data
  column for each name of \<^verbatim>\<open>values_cols\<close>.
\<close>

definition existing_index_axes :: "('r, 'i) ptable \<Rightarrow> col list" where
  "existing_index_axes p =
     map (\<lambda>(i, axis, name).
            \<lparr>c_is_data = False, c_name = name, c_cname = name, c_axis = Some axis,
             c_pos = Some i, c_kind = attr_str (pt_attrs p (kind_attr name)), c_dtype = None,
             c_values = [], c_meta = None, c_metadata = None, c_itemsize = None,
             c_names_ok = True\<rparr>)
         (zip [0..<length (pt_index_cols p)] (pt_index_cols p))"

definition existing_values_axes :: "('r, 'i) ptable \<Rightarrow> col list" where
  "existing_values_axes p =
     map (\<lambda>(i, c).
            \<lparr>c_is_data = True, c_name = c, c_cname = c, c_axis = None,
             c_pos = Some (length (pt_index_cols p) + i), c_kind = None,
             c_dtype = attr_str (pt_attrs p (dtype_attr c)),
             c_values = attr_list (pt_attrs p (kind_attr c)),
             c_meta = attr_str (pt_attrs p (meta_attr c)), c_metadata = pt_meta p c,
             c_itemsize = None, c_names_ok = True\<rparr>)
         (zip [0..<length (pt_values_cols p)] (pt_values_cols p))"

text \<open>
  What \<^verbatim>\<open>create_axes\<close> derives from the incoming object before it validates
  against the existing table: the table type of the class and the new axes and info.
  This part of \<^verbatim>\<open>create_axes\<close> reads the existing table and writes nothing to
  it; it is a parameter of the model (an exception or the derived axes).
\<close>

record 'i new_axes =
  na_table_type :: string
  na_index_axes :: "col list"
  na_non_index_axes :: "(nat \<times> string list) list"
  na_values_axes :: "col list"
  na_info :: 'i

text \<open>
  The loop of \<^verbatim>\<open>Table.validate\<close> entered when two axis lists differ: ValueError
  at the first position that differs, IndexError when the existing list is shorter,
  and the plain Exception after the loop.
\<close>

fun first_difference :: "('a \<Rightarrow> 'a \<Rightarrow> bool) \<Rightarrow> 'a list \<Rightarrow> 'a list \<Rightarrow> py_error" where
  "first_difference eq [] ov = PlainException"
| "first_difference eq (s # sv) [] = IndexError"
| "first_difference eq (s # sv) (v # ov) =
     (if \<not> eq s v then ValueError else first_difference eq sv ov)"

definition validate_axes :: "('a \<Rightarrow> 'a \<Rightarrow> bool) \<Rightarrow> 'a list \<Rightarrow> 'a list \<Rightarrow> py_error option" where
  "validate_axes eq sv ov =
     (if list_all2 eq sv ov then None else Some (first_difference eq sv ov))"

text \<open>\<^verbatim>\<open>Table.validate(other)\<close> for an existing table.\<close>

definition Table_validate :: "'i new_axes \<Rightarrow> ('r, 'i) ptable \<Rightarrow> py_error option" where
  "Table_validate new p =
     (if pt_table_type p \<noteq> na_table_type new then Some TypeError
      else (case validate_axes IndexCol_eq (na_index_axes new) (existing_index_axes p) of
              Some e \<Rightarrow> Some e
            | None \<Rightarrow>
                (case validate_axes (=) (na_non_index_axes new) (pt_non_index_axes p) of
                   Some e \<Rightarrow> Some e
                 | None \<Rightarrow>
                     validate_axes DataCol_eq (na_values_axes new) (existing_values_axes p))))"

text \<open>\<^verbatim>\<open>validate_col()\<close> of a new column against the table description.\<close>

definition col_validate_col :: "col \<Rightarrow> ('r, 'i) ptable \<Rightarrow> py_error option" where
  "col_validate_col c p =
     (if c_kind c = Some ''string'' then
        (case pt_itemsize p (c_cname c) of
           None \<Rightarrow> None
         | Some w \<Rightarrow>
             (case c_itemsize c of
                None \<Rightarrow> Some TypeError
              | Some n \<Rightarrow> if w < n then Some (StringSizeError n (c_cname c) w) else None))
      else None)"

text \<open>\<^verbatim>\<open>validate_attr(append=True)\<close> of \<^verbatim>\<open>DataCol\<close> and of
  \<^verbatim>\<open>IndexCol\<close>.\<close>

definition col_validate_attr :: "col \<Rightarrow> ('r, 'i) ptable \<Rightarrow> py_error option" where
  "col_validate_attr c p =
     (if c_is_data c then
        (case pt_attrs p (kind_attr (c_name c)) of
           Some existing_fields \<Rightarrow>
             (if existing_fields \<noteq> AList (c_values c) then Some ValueError
              else (case pt_attrs p (dtype_attr (c_name c)) of
                      Some existing_dtype \<Rightarrow>
                        (if Some existing_dtype \<noteq> map_option AStr (c_dtype c)
                         then Some ValueError else None)
                    | None \<Rightarrow> None))
         | None \<Rightarrow>
             (case pt_attrs p (dtype_attr (c_name c)) of
                Some existing_dtype \<Rightarrow>
                  (if Some existing_dtype \<noteq> map_option AStr (c_dtype c)
                   then Some ValueError else None)
              | None \<Rightarrow> None))
      else
        (case pt_attrs p (kind_attr (c_name c)) of
           Some existing_kind \<Rightarrow>
             (if Some existing_kind \<noteq> map_option AStr (c_kind c) then Some TypeError else None)
         | None \<Rightarrow> None))"

text \<open>\<^verbatim>\<open>validate_metadata\<close>: the categories of a categorical must not change.\<close>

definition col_validate_metadata :: "col \<Rightarrow> ('r, 'i) ptable \<Rightarrow> py_error option" where
  "col_validate_metadata c p =
     (if c_meta c = Some ''category'' then
        (case (c_metadata c, pt_meta p (c_cname c)) of
           (Some new_metadata, Some cur_metadata) \<Rightarrow>
             (if new_metadata \<noteq> cur_metadata then Some ValueError else None)
         | _ \<Rightarrow> None)
      else None)"

text \<open>\<^verbatim>\<open>write_metadata\<close> and \<^verbatim>\<open>set_attr\<close>.\<close>

definition col_write_metadata :: "col \<Rightarrow> ('r, 'i) ptable \<Rightarrow> ('r, 'i) ptable" where
  "col_write_metadata c p =
     (case c_metadata c of
        None \<Rightarrow> p
      | Some m \<Rightarrow> p\<lparr>pt_meta := (pt_meta p)(c_cname c \<mapsto> m)\<rparr>)"

definition col_set_attr :: "col \<Rightarrow> ('r, 'i) ptable \<Rightarrow> ('r, 'i) ptable" where
  "col_set_attr c p =
     (if c_is_data c then
        (let a1 = (pt_attrs p)(kind_attr (c_name c) \<mapsto> AList (c_values c));
             a2 = a1(meta_attr (c_name c) := map_option AStr (c_meta c));
             a3 = (case c_dtype c of None \<Rightarrow> a2 | Some d \<Rightarrow> a2(dtype_attr (c_name c) \<mapsto> AStr d))
         in p\<lparr>pt_attrs := a3\<rparr>)
      else p\<lparr>pt_attrs := (pt_attrs p)(kind_attr (c_name c) := map_option AStr (c_kind c))\<rparr>)"

text \<open>\<^verbatim>\<open>validate_and_set\<close> of one column, and the loop over the axes.\<close>

definition validate_and_set :: "col \<Rightarrow> ('r, 'i) ptable \<Rightarrow> ('r, 'i) ptable \<times> py_error option" where
  "validate_and_set c p =
     (case col_validate_col c p of
        Some e \<Rightarrow> (p, Some e)
      | None \<Rightarrow>
          (case col_validate_attr c p of
             Some e \<Rightarrow> (p, Some e)
           | None \<Rightarrow>
               (case col_validate_metadata c p of
                  Some e \<Rightarrow> (p, Some e)
                | None \<Rightarrow> (col_set_attr c (col_write_metadata c p), None))))"

fun validate_and_set_all :: "col list \<Rightarrow> ('r, 'i) ptable \<Rightarrow> ('r, 'i) ptable \<times> py_error option" where
  "validate_and_set_all [] p = (p, None)"
| "validate_and_set_all (c # cs) p =
     (case validate_and_set c p of
        (p', Some e) \<Rightarrow> (p', Some e)
      | (p', None) \<Rightarrow> validate_and_set_all cs p')"

text \<open>The rows that a sequence of operations appends.\<close>

fun appended :: "'r table_op list \<Rightarrow> 'r list" where
  "appended [] = []"
| "appended (Append rows # ops) = rows @ appended ops"
| "appended (_ # ops) = appended ops"

text \<open>
  \<^verbatim>\<open>AppendableTable.write(append=True)\<close> on a group whose table exists, so that
  neither \<^verbatim>\<open>remove_node\<close> nor the creation of the table is run: the axes are
  created and validated against the existing table, the names are validated, the
  \<^verbatim>\<open>info\<close> attribute is written, every axis is validated and set, and the rows are
  written. The result is the table node afterwards and the exception raised, if any.
\<close>

definition write_append ::
  "(py_error + 'i new_axes) \<Rightarrow> int option \<Rightarrow> 'r list \<Rightarrow> bool list option \<Rightarrow> nat list
     \<Rightarrow> ('r, 'i) ptable \<Rightarrow> ('r, 'i) ptable \<times> py_error option" where
  "write_append derived chunksize rows msk vsizes p =
     (case derived of
        Inl e \<Rightarrow> (p, Some e)
      | Inr new \<Rightarrow>
          (case Table_validate new p of
             Some e \<Rightarrow> (p, Some e)
           | None \<Rightarrow>
               (if list_ex (\<lambda>c. \<not> c_names_ok c) (na_index_axes new @ na_values_axes new)
                then (p, Some ValueError)
                else
                  (case validate_and_set_all (na_index_axes new @ na_values_axes new)
                          (p\<lparr>pt_info := na_info new\<rparr>) of
                     (p', Some e) \<Rightarrow> (p', Some e)
                   | (p', None) \<Rightarrow>
                       (case write_data chunksize rows msk vsizes of
                          Inl e \<Rightarrow> (p', Some e)
                        | Inr ops \<Rightarrow> (p'\<lparr>pt_rows := pt_rows p' @ appended ops\<rparr>, None))))))"

section \<open>Concrete collaborators and stores\<close>

text \<open>
  Two expression collaborators for the concrete cases: one whose constructor rejects
  every \<^verbatim>\<open>where\<close> with a ValueError, and one that accepts every
  \<^verbatim>\<open>where\<close> and evaluates it to no condition and no filter. The store holds
  one table of three rows under \<^verbatim>\<open>/df\<close>.
\<close>

definition reject_all :: "(string, unit, unit, unit) expr_api" where
  "reject_all = \<lparr>maybe_expression = (\<lambda>_. True), Term = (\<lambda>e. e), expr_len = length,
      PyTablesExpr = (\<lambda>_. Inl ValueError), evaluate = (\<lambda>_. Inl ValueError)\<rparr>"

definition accept_all :: "(string, unit, unit, unit) expr_api" where
  "accept_all = \<lparr>maybe_expression = (\<lambda>_. True), Term = (\<lambda>e. e), expr_len = length,
      PyTablesExpr = (\<lambda>_. Inr ()), evaluate = (\<lambda>_. Inr (None, None))\<rparr>"

definition demo_store :: "(nat, unit) store" where
  "demo_store = \<lparr>is_open = True,
      nodes = (\<lambda>k. if k = ''/df'' then Some (TableNode [10, 11, 12]) else None)\<rparr>"

text \<open>
  An existing table of three rows with an integer index and one block of float64 values
  for the item \<^verbatim>\<open>A\<close>, and the axes derived from a batch whose block for
  \<^verbatim>\<open>A\<close> is int64.
\<close>

definition demo_table :: "(nat, unit) ptable" where
  "demo_table =
     \<lparr>pt_table_type = ''appendable_frame'',
      pt_index_cols = [(0, ''index'')],
      pt_values_cols = [''values_block_0''],
      pt_non_index_axes = [(1, [''A''])],
      pt_attrs = (\<lambda>k. None)(''index_kind'' \<mapsto> AStr ''integer'',
                     ''values_block_0_kind'' \<mapsto> AList [''A''],
                     ''values_block_0_dtype'' \<mapsto> AStr ''float64''),
      pt_info = (),
      pt_meta = (\<lambda>k. None),
      pt_itemsize = (\<lambda>k. None),
      pt_rows = [10, 11, 12]\<rparr>"

definition demo_axes :: "unit new_axes" where
  "demo_axes =
     \<lparr>na_table_type = ''appendable_frame'',
      na_index_axes =
        [\<lparr>c_is_data = False, c_name = ''index'', c_cname = ''index'', c_axis = Some 0,
          c_pos = Some 0, c_kind = Some ''integer'', c_dtype = None, c_values = [],
          c_meta = None, c_metadata = None, c_itemsize = None, c_names_ok = True\<rparr>],
      na_non_index_axes = [(1, [''A''])],
      na_values_axes =
        [\<lparr>c_is_data = True, c_name = ''values_block_0'', c_cname = ''values_block_0'',
          c_axis = None, c_pos = Some 1, c_kind = Some ''int64'', c_dtype = Some ''int64'',
          c_values = [''A''], c_meta = None, c_metadata = None, c_itemsize = None,
          c_names_ok = True\<rparr>],
      na_info = ()\<rparr>"

text \<open>
  An \<^verbatim>\<open>info\<close> dictionary that records the frequency \<^verbatim>\<open>D\<close> for the column
  \<^verbatim>\<open>index\<close>, and a column object whose frequency is \<^verbatim>\<open>H\<close>.
\<close>

definition demo_info :: "string info" where
  "demo_info = (\<lambda>n. None)(''index'' \<mapsto> (\<lambda>k. None)(''freq'' \<mapsto> Some ''D''))"

definition demo_attrs :: "string col_attrs" where
  "demo_attrs = (\<lambda>k. None)(''freq'' \<mapsto> ''H'')"



definition no_check :: "'k list list \<Rightarrow> int list list \<Rightarrow> py_error option" where
  "no_check levels codes = None"

section \<open>Verified properties\<close>

subsection \<open>Removal with an empty predicate list\<close>

text \<open>
  C10. An empty \<^verbatim>\<open>where\<close> list is normalised to None by \<^verbatim>\<open>_ensure_term\<close>;
  \<^verbatim>\<open>delete\<close> with a None or empty \<^verbatim>\<open>where\<close> and neither start nor stop
  removes the whole node and returns the previous row count; and
  \<^verbatim>\<open>remove(key, where=[])\<close> on a table removes the node, exactly as
  \<^verbatim>\<open>remove(key)\<close> does, so every row is gone rather than none.
\<close>

theorem remove_empty_where:
  assumes "wh = WNone \<or> where_len api wh = 0"
    and "is_open st" and "nodes st (norm_key key) = Some (TableNode rows)"
  shows "ensure_term api (WTerms []) = WNone
     \<and> delete api found (Some rows) wh None None = ([RemoveNode], Inr (Some (length rows)))
     \<and> apply_ops [RemoveNode] (Some rows) = None
     \<and> remove api found st key (WTerms []) None None = (f_remove st key, Inr None)
     \<and> remove api found st key WNone None None = (f_remove st key, Inr None)
     \<and> nodes (f_remove st key) (norm_key key) = None"
proof -
  have e: "ensure_term api (WTerms []) = WNone"
    by (simp add: ensure_term_def where_len_def List.map_filter_simps)
  have e': "ensure_term api WNone = WNone"
    by (simp add: ensure_term_def)
  have d: "delete api found (Some rows) wh None None = ([RemoveNode], Inr (Some (length rows)))"
    using assms(1) by (auto simp add: delete_def)
  have s: "get_storer st key = Inr (TableNode rows)"
    using assms(2,3) by (simp add: get_storer_def get_node_def)
  have r: "remove api found st key (WTerms []) None None = (f_remove st key, Inr None)"
    by (simp add: remove_def e s)
  have r': "remove api found st key WNone None None = (f_remove st key, Inr None)"
    by (simp add: remove_def e' s)
  show ?thesis
    using e d r r' by (simp add: apply_ops_def f_remove_def)
qed

theorem remove_empty_where_witness:
  "where_len reject_all (WTerms []) = 0
   \<and> is_open demo_store
   \<and> nodes demo_store (norm_key ''df'') = Some (TableNode [10, 11, 12])
   \<and> delete reject_all (\<lambda>c s e. []) (Some [10, 11, 12 :: nat]) (WTerms []) None None
        = ([RemoveNode], Inr (Some 3))
   \<and> remove reject_all (\<lambda>c s e. []) demo_store ''df'' (WTerms []) None None
        = (f_remove demo_store ''df'', Inr None)
   \<and> nodes (f_remove demo_store ''df'') (norm_key ''df'') = None"
proof -
  have h1: "WTerms [] = WNone \<or> where_len reject_all (WTerms []) = 0"
    by (simp add: where_len_def)
  have h2: "is_open demo_store"
    by (simp add: demo_store_def)
  have h3: "nodes demo_store (norm_key ''df'') = Some (TableNode [10, 11, 12])"
    by (simp add: demo_store_def norm_key_def)
  have h0: "where_len reject_all (WTerms []) = 0"
    by (simp add: where_len_def)
  from remove_empty_where [OF h1 h2 h3, of "\<lambda>c s e. []"] h0 h2 h3
  show ?thesis by simp
qed

subsection \<open>Row deletion\<close>

lemma delete_coords_unsorted: "delete_coords [7, 1, 2] = ([RemoveRows 1 8, Flush], Inr 3)"
  by (simp add: delete_coords_def Series_def sort_values_def fix_groups_def diff_groups_def
      gt_one_def upt_rec)

lemma sort_values_sorted: "sorted vals \<Longrightarrow> sort_values (Series vals) = Series vals"
  by (simp add: sort_values_def Series_def sort_key_id_if_sorted)

lemma Series_Cons: "Series (x # xs) = (0, x) # zip [1..<Suc (length xs)] xs"
  by (simp add: Series_def upt_conv_Cons del: upt_Suc)

lemma diff_groups_diff_from:
  "diff_groups (diff_from p (zip [k..<k + length xs] xs)) = gaps_from p k xs"
proof (induction xs arbitrary: p k)
  case Nil
  then show ?case by (simp add: diff_groups_def)
next
  case (Cons x xs)
  have u: "[k..<k + length (x # xs)] = k # [Suc k..<Suc k + length xs]"
    by (simp add: upt_conv_Cons del: upt_Suc)
  have "diff_groups (diff_from x (zip [Suc k..<Suc k + length xs] xs)) = gaps_from x (Suc k) xs"
    by (rule Cons.IH)
  then show ?case
    unfolding u by (simp add: diff_groups_def gt_one_def)
qed

lemma diff_groups_Series:
  "diff_groups (diff (Series (x # xs))) = gaps_from x 1 xs"
  using diff_groups_diff_from [of x 1 xs]
  by (simp add: Series_Cons diff_groups_def gt_one_def)

lemma gaps_from_bounds: "g \<in> set (gaps_from p k xs) \<Longrightarrow> k \<le> g \<and> g < k + length xs"
  by (induction xs arbitrary: p k) (fastforce split: if_splits)+

lemma gaps_from_sorted: "sorted_wrt (<) (gaps_from p k xs)"
proof (induction xs arbitrary: p k)
  case Nil
  then show ?case by simp
next
  case (Cons x xs)
  have "\<forall>g \<in> set (gaps_from x (Suc k) xs). k < g"
    by (auto dest: gaps_from_bounds)
  with Cons show ?case by (simp add: sorted_wrt_append)
qed

lemma gaps_from_Suc: "gaps_from p (Suc k) xs = map Suc (gaps_from p k xs)"
  by (induction xs arbitrary: p k) simp_all

lemma fix_groups_gaps:
  "fix_groups (gaps_from x 1 xs) (Suc (length xs)) = 0 # gaps_from x 1 xs @ [Suc (length xs)]"
proof (cases "gaps_from x 1 xs = []")
  case True
  then show ?thesis by (simp add: fix_groups_def)
next
  case False
  have l: "last (gaps_from x 1 xs) \<noteq> Suc (length xs)"
    using gaps_from_bounds [of "last (gaps_from x 1 xs)" x 1 xs] False by auto
  have h: "hd (gaps_from x 1 xs) \<noteq> 0"
    using gaps_from_bounds [of "hd (gaps_from x 1 xs)" x 1 xs] False by auto
  show ?thesis using False l h by (simp add: fix_groups_def Let_def)
qed

lemma Series_nth: "i < length vals \<Longrightarrow> snd (Series vals ! i) = vals ! i"
  by (simp add: Series_def)

lemma hd_slice: "g < pg \<Longrightarrow> pg \<le> length ys \<Longrightarrow> hd (slice g pg ys) = ys ! g"
  by (simp add: slice_def hd_drop_conv_nth)

lemma last_slice: "g < pg \<Longrightarrow> pg \<le> length ys \<Longrightarrow> last (slice g pg ys) = ys ! (pg - 1)"
  by (simp add: slice_def last_conv_nth)

lemma remove_groups_rsegs:
  "sorted_wrt (>) (pg # gs) \<Longrightarrow> pg \<le> length vals \<Longrightarrow>
     remove_groups (Series vals) gs pg = (map run_op (rsegs gs pg vals), None)"
proof (induction gs arbitrary: pg)
  case Nil
  then show ?case by simp
next
  case (Cons g gs)
  then have lt: "g < pg" and le: "pg \<le> length vals" by simp_all
  have d: "sorted_wrt (>) (g # gs)" "g \<le> length vals"
    using Cons.prems by simp_all
  have len: "length (Series vals) = length vals" by (simp add: Series_def)
  show ?case
    using lt le Cons.IH [OF d]
    by (simp add: len run_op_def hd_slice last_slice Series_nth)
qed

lemma rsegs_snoc:
  "rsegs (gs @ [c]) pg ys = rsegs gs pg ys @ [slice c (if gs = [] then pg else last gs) ys]"
  by (induction gs arbitrary: pg) simp_all

lemma rsegs_rev: "rsegs (rev cuts) n ys = rev (segs cuts n ys)"
proof (induction cuts n ys rule: segs.induct)
  case (1 n ys)
  then show ?case by simp
next
  case (2 c n ys)
  then show ?case by simp
next
  case (3 c c' cs n ys)
  have "rsegs (rev (c # c' # cs)) n ys = rsegs (rev (c' # cs) @ [c]) n ys"
    by simp
  also have "\<dots> = rsegs (rev (c' # cs)) n ys @ [slice c (last (rev (c' # cs))) ys]"
    by (simp only: rsegs_snoc) simp
  also have "\<dots> = rev (segs (c' # cs) n ys) @ [slice c c' ys]"
    using "3.IH" by simp
  finally show ?case by simp
qed

lemma slice_Suc: "slice (Suc a) (Suc b) (x # zs) = slice a b zs"
  by (simp add: slice_def)

lemma slice_0_Suc: "slice 0 (Suc b) (x # zs) = x # slice 0 b zs"
  by (simp add: slice_def)

lemma segs_Suc: "segs (map Suc cs) (Suc n) (x # zs) = segs cs n zs"
  by (induction cs n zs rule: segs.induct) (simp_all add: slice_Suc)

lemma segs_0_Suc:
  "segs (0 # map Suc cs) (Suc n) (x # zs) =
     (case segs (0 # cs) n zs of [] \<Rightarrow> [[x]] | r # rs \<Rightarrow> (x # r) # rs)"
proof (cases cs)
  case Nil
  then show ?thesis by (simp add: slice_0_Suc)
next
  case (Cons c cs')
  have "segs (Suc c # map Suc cs') (Suc n) (x # zs) = segs (c # cs') n zs"
    using segs_Suc [of "c # cs'" n x zs] by simp
  then show ?thesis using Cons by (simp add: slice_0_Suc)
qed

lemma segs_runs:
  "segs (0 # gaps_from x 1 xs) (Suc (length xs)) (x # xs) = runs (x # xs)"
proof (induction xs arbitrary: x)
  case Nil
  then show ?case by (simp add: slice_def)
next
  case (Cons y ys)
  have ih: "segs (0 # gaps_from y 1 ys) (Suc (length ys)) (y # ys) = runs (y # ys)"
    by (rule Cons.IH)
  have g2: "gaps_from y (Suc 1) ys = map Suc (gaps_from y 1 ys)"
    by (rule gaps_from_Suc)
  show ?case
  proof (cases "1 < y - x")
    case True
    have "segs (0 # 1 # map Suc (gaps_from y 1 ys)) (Suc (Suc (length ys))) (x # y # ys)
            = [x] # segs (map Suc (0 # gaps_from y 1 ys)) (Suc (Suc (length ys))) (x # y # ys)"
      by (simp add: slice_def)
    also have "\<dots> = [x] # segs (0 # gaps_from y 1 ys) (Suc (length ys)) (y # ys)"
      by (simp only: segs_Suc)
    finally show ?thesis using True ih g2 by simp
  next
    case False
    have "segs (0 # map Suc (gaps_from y 1 ys)) (Suc (Suc (length ys))) (x # y # ys)
            = (case segs (0 # gaps_from y 1 ys) (Suc (length ys)) (y # ys) of
                 [] \<Rightarrow> [[x]] | r # rs \<Rightarrow> (x # r) # rs)"
      by (rule segs_0_Suc)
    then show ?thesis using False ih g2 by simp
  qed
qed

text \<open>
  For ascending coordinates, as a condition, a mask and no predicate give them,
  \<^verbatim>\<open>delete\<close> issues one \<^verbatim>\<open>remove_rows\<close> for each run, the last run first,
  then the flush, and returns the number of coordinates.
\<close>

lemma delete_coords_sorted:
  assumes "sorted vals" "vals \<noteq> []"
  shows "delete_coords vals = (map run_op (rev (runs vals)) @ [Flush], Inr (length vals))"
proof -
  from assms(2) obtain x xs where v: "vals = x # xs" by (cases vals) auto
  let ?G = "gaps_from x 1 xs"
  let ?n = "Suc (length xs)"
  have ss: "sort_values (Series vals) = Series vals"
    using assms(1) by (rule sort_values_sorted)
  have len: "length (Series vals) = ?n" by (simp add: v Series_def)
  have groups: "fix_groups (diff_groups (diff (Series vals))) ?n = 0 # ?G @ [?n]"
    by (simp only: v diff_groups_Series fix_groups_gaps)
  have b: "\<forall>g \<in> set ?G. 0 < g \<and> g < ?n"
    by (auto dest: gaps_from_bounds)
  have "sorted_wrt (<) (0 # ?G @ [?n])"
    using gaps_from_sorted [of x 1 xs] b by (auto simp add: sorted_wrt_append)
  then have "sorted_wrt (>) (rev (0 # ?G @ [?n]))"
    by (simp only: sorted_wrt_rev)
  then have dec: "sorted_wrt (>) (?n # rev (0 # ?G))" by simp
  have "remove_groups (Series vals) (rev (0 # ?G)) ?n = (map run_op (rsegs (rev (0 # ?G)) ?n vals), None)"
    using dec by (rule remove_groups_rsegs) (simp add: v)
  also have "rsegs (rev (0 # ?G)) ?n vals = rev (runs vals)"
    by (simp only: rsegs_rev v segs_runs)
  finally have r: "remove_groups (Series vals) (rev (0 # ?G)) ?n = (map run_op (rev (runs vals)), None)" .
  have bl: "butlast (0 # ?G @ [?n]) = 0 # ?G" "last (0 # ?G @ [?n]) = ?n"
    by (simp_all add: butlast_append)
  show ?thesis
    unfolding delete_coords_def ss len groups Let_def bl r
    by (simp add: v)
qed

lemma delete_sorted_selection:
  fixes rows :: "'r list"
  assumes "wh \<noteq> WNone" "where_len api wh \<noteq> 0"
    and "Selection api (length rows) wh start stop = Inr sel"
    and "sorted (select_coords found (length rows) sel)"
    and "select_coords found (length rows) sel \<noteq> []"
  shows "delete api found (Some rows) wh start stop =
           (map run_op (rev (runs (select_coords found (length rows) sel))) @ [Flush],
            Inr (Some (length (select_coords found (length rows) sel))))"
proof -
  have "(delete_coords (select_coords found (length rows) sel)
          :: 'r table_op list \<times> (py_error + nat)) =
        (map run_op (rev (runs (select_coords found (length rows) sel))) @ [Flush],
         Inr (length (select_coords found (length rows) sel)))"
    using assms(4,5) by (rule delete_coords_sorted)
  then show ?thesis
    using assms(1,2,3) by (simp add: delete_def)
qed

text \<open>
  The example of the design: on a table of 100 rows the ascending coordinates
  \<open>1, 2, 3, 7, 8, 20\<close> are removed by one operation for each run, the last run
  first; 94 rows are left, in their order.
\<close>

lemma delete_coords_example:
  "delete_coords [1, 2, 3, 7, 8, 20]
     = ([RemoveRows 20 21, RemoveRows 7 9, RemoveRows 1 4, Flush], Inr 6)"
  by (simp add: delete_coords_def Series_def sort_values_def fix_groups_def diff_groups_def
      gt_one_def upt_rec)

lemma delete_example_rows:
  "apply_ops [RemoveRows 20 21, RemoveRows 7 9, RemoveRows 1 4, Flush] (Some [0..<100::nat])
     = Some (filter (\<lambda>i. i \<notin> {1, 2, 3, 7, 8, 20}) [0..<100])
   \<and> length (filter (\<lambda>i. i \<notin> {1, 2, 3, 7, 8, 20}) [0..<100::nat]) = 94"
  by (simp add: apply_ops_def remove_rows_def slice_bound_def upt_rec)

text \<open>
  C1. \<^verbatim>\<open>delete\<close> is to remove exactly the selected coordinates, one
  \<^verbatim>\<open>remove_rows\<close> for each maximal run of consecutive coordinates, and to return
  their number. For the explicit coordinates \<open>7, 1, 2\<close> on a table of ten rows the
  groups are taken from the index labels of the sorted series, not from positions: the
  code issues the single \<^verbatim>\<open>remove_rows(1, 8)\<close>, which removes the seven rows
  \<open>1\<close> to \<open>7\<close>, and returns \<open>3\<close>.
\<close>

theorem delete_unsorted_coords:
  "delete api found (Some [0..<10::nat]) (WCoords [7, 1, 2]) None None
     = ([RemoveRows 1 8, Flush], Inr (Some 3))
   \<and> apply_ops [RemoveRows 1 8, Flush] (Some [0..<10::nat]) = Some [0, 8, 9]"
  by (simp add: delete_def where_len_def Selection_def infer_coordinates_def select_coords_def
      delete_coords_unsorted apply_ops_def remove_rows_def slice_bound_def upt_rec)

subsection \<open>Appending a batch of another dtype\<close>



lemma existing_values_axes_nth:
  "i < length (pt_values_cols p) \<Longrightarrow>
     c_dtype (existing_values_axes p ! i) = attr_str (pt_attrs p (dtype_attr (pt_values_cols p ! i)))"
  by (simp add: existing_values_axes_def)

lemma length_existing_values_axes: "length (existing_values_axes p) = length (pt_values_cols p)"
  by (simp add: existing_values_axes_def)

lemma dtype_mismatch_not_all2:
  assumes "i < length new_vals" "i < length (pt_values_cols p)"
    and "c_dtype (new_vals ! i) \<noteq> attr_str (pt_attrs p (dtype_attr (pt_values_cols p ! i)))"
  shows "\<not> list_all2 DataCol_eq new_vals (existing_values_axes p)"
proof
  assume a: "list_all2 DataCol_eq new_vals (existing_values_axes p)"
  from a assms(1) have "DataCol_eq (new_vals ! i) (existing_values_axes p ! i)"
    by (rule list_all2_nthD)
  then show False
    using assms(2,3) by (simp add: DataCol_eq_def existing_values_axes_nth)
qed

lemma Table_validate_dtype_mismatch:
  assumes "i < length (na_values_axes new)" "i < length (pt_values_cols p)"
    and "c_dtype (na_values_axes new ! i) \<noteq> attr_str (pt_attrs p (dtype_attr (pt_values_cols p ! i)))"
  shows "Table_validate new p \<noteq> None"
  using dtype_mismatch_not_all2 [OF assms]
  by (simp add: Table_validate_def validate_axes_def split: option.splits)

lemma validate_and_set_rows: "pt_rows (fst (validate_and_set c p)) = pt_rows p"
  by (simp add: validate_and_set_def col_set_attr_def col_write_metadata_def Let_def
      split: option.splits)

lemma validate_and_set_all_rows: "pt_rows (fst (validate_and_set_all cs p)) = pt_rows p"
proof (induction cs arbitrary: p)
  case Nil
  then show ?case by simp
next
  case (Cons c cs)
  show ?case
  proof (cases "validate_and_set c p")
    case (Pair p' r)
    then have "pt_rows p' = pt_rows p"
      using validate_and_set_rows [of c p] by simp
    with Pair Cons.IH [of p'] show ?thesis
      by (cases r) simp_all
  qed
qed

lemma validate_and_set_all_rowsD:
  "validate_and_set_all cs q = (q', r) \<Longrightarrow> pt_rows q' = pt_rows q"
  using validate_and_set_all_rows [of cs q] by simp

lemma write_append_error_rows:
  assumes "write_append derived chunksize rows msk vsizes p = (p', Some e)"
  shows "pt_rows p' = pt_rows p"
  using assms
  by (auto simp add: write_append_def
      split: sum.splits option.splits if_splits prod.splits
      dest!: validate_and_set_all_rowsD)

text \<open>
  C3. When a value column of the incoming batch has a dtype other than the persisted
  dtype of the existing column at its position, \<^verbatim>\<open>write(append=True)\<close> raises and
  the table node is as before: its rows and its attributes. And whenever the append
  raises, no row has been written.
\<close>

theorem append_dtype_mismatch_unmodified:
  assumes "i < length (na_values_axes new)" "i < length (pt_values_cols p)"
    and "c_dtype (na_values_axes new ! i) \<noteq> attr_str (pt_attrs p (dtype_attr (pt_values_cols p ! i)))"
  shows "(\<exists>e. write_append (Inr new) chunksize rows msk vsizes p = (p, Some e))
     \<and> (\<forall>derived p' e. write_append derived chunksize rows msk vsizes p = (p', Some e)
            \<longrightarrow> pt_rows p' = pt_rows p)"
proof -
  from Table_validate_dtype_mismatch [OF assms]
  obtain e where "Table_validate new p = Some e" by auto
  then have "write_append (Inr new) chunksize rows msk vsizes p = (p, Some e)"
    by (simp add: write_append_def)
  then show ?thesis
    using write_append_error_rows by blast
qed

theorem append_dtype_mismatch_unmodified_witness:
  "0 < length (na_values_axes demo_axes)
   \<and> 0 < length (pt_values_cols demo_table)
   \<and> c_dtype (na_values_axes demo_axes ! 0) = Some ''int64''
   \<and> attr_str (pt_attrs demo_table (dtype_attr (pt_values_cols demo_table ! 0))) = Some ''float64''
   \<and> (\<exists>e. write_append (Inr demo_axes) None [13, 14] None [1] demo_table = (demo_table, Some e))"
proof -
  have h1: "0 < length (na_values_axes demo_axes)"
    by (simp add: demo_axes_def)
  have h2: "0 < length (pt_values_cols demo_table)"
    by (simp add: demo_table_def)
  have n: "c_dtype (na_values_axes demo_axes ! 0) = Some ''int64''"
    by (simp add: demo_axes_def)
  have o: "attr_str (pt_attrs demo_table (dtype_attr (pt_values_cols demo_table ! 0))) = Some ''float64''"
    by (simp add: demo_table_def dtype_attr_def attr_str_def)
  have h3: "c_dtype (na_values_axes demo_axes ! 0)
      \<noteq> attr_str (pt_attrs demo_table (dtype_attr (pt_values_cols demo_table ! 0)))"
    by (simp add: n o)
  from append_dtype_mismatch_unmodified [OF h1 h2 h3, of None "[13, 14]" None "[1]"] h1 h2 n o
  show ?thesis by blast
qed

subsection \<open>Conflicting informational attributes\<close>
lemma get_info_fst: "fst (get_info info name) = info(name \<mapsto> idx_of info name)"
  by (auto simp add: get_info_def idx_of_def split: option.splits)

lemma idx_of_upd [simp]: "idx_of (info(name \<mapsto> x)) name = x"
  by (simp add: idx_of_def get_info_def)

lemma update_info_key_eq:
  "update_info_key name key (info, attrs, ws) =
     (if info_conflict (idx_of info name) key (attrs key) then
        (if key = ''freq'' \<or> key = ''index_name'' then
           ((info(name \<mapsto> (idx_of info name)(key \<mapsto> None)), attrs(key := None),
             ws @ [AttributeConflictWarning key (idx_get (idx_of info name) key) (the (attrs key))]), None)
         else ((info(name \<mapsto> idx_of info name), attrs, ws), Some ValueError))
      else
        (if attrs key \<noteq> None \<or> idx_get (idx_of info name) key \<noteq> None
         then ((info(name \<mapsto> (idx_of info name)(key \<mapsto> attrs key)), attrs, ws), None)
         else ((info(name \<mapsto> idx_of info name), attrs, ws), None)))"
  by (auto simp add: update_info_key_def idx_of_def get_info_def Let_def split: option.splits prod.splits)

lemma step_other:
  assumes "update_info_key name key (info, attrs, ws) = ((info', attrs', ws'), err)" "key' \<noteq> key"
  shows "idx_of info' name key' = idx_of info name key' \<and> attrs' key' = attrs key'"
  using assms by (auto simp add: update_info_key_eq split: if_splits)

lemma step_other_conflict:
  assumes "update_info_key name key (info, attrs, ws) = ((info', attrs', ws'), err)" "key' \<noteq> key"
  shows "info_conflict (idx_of info' name) key' (attrs' key') = info_conflict (idx_of info name) key' (attrs key')"
  using step_other [OF assms] by (simp add: info_conflict_def idx_get_def)

lemma step_other_get:
  assumes "update_info_key name key (info, attrs, ws) = ((info', attrs', ws'), err)" "key' \<noteq> key"
  shows "idx_get (idx_of info' name) key' = idx_get (idx_of info name) key'"
  using step_other [OF assms] by (simp add: idx_get_def)

lemma step_warns:
  assumes "info_conflict (idx_of info name) key (attrs key)" "key = ''freq'' \<or> key = ''index_name''"
  shows "update_info_key name key (info, attrs, ws) =
     ((info(name \<mapsto> (idx_of info name)(key \<mapsto> None)), attrs(key := None),
       ws @ [AttributeConflictWarning key (idx_get (idx_of info name) key) (the (attrs key))]), None)"
  using assms by (simp add: update_info_key_eq)

lemma step_raises:
  assumes "info_conflict (idx_of info name) key (attrs key)" "key \<noteq> ''freq''" "key \<noteq> ''index_name''"
  shows "snd (update_info_key name key (info, attrs, ws)) = Some ValueError"
  using assms by (simp add: update_info_key_eq)

lemma step_no_error:
  assumes "\<not> info_conflict (idx_of info name) key (attrs key) \<or> key = ''freq'' \<or> key = ''index_name''"
  shows "snd (update_info_key name key (info, attrs, ws)) = None"
  using assms by (auto simp add: update_info_key_eq)

lemma step_keeps_warnings:
  assumes "update_info_key name key (info, attrs, ws) = ((info', attrs', ws'), err)"
  shows "set ws \<subseteq> set ws'"
  using assms by (auto simp add: update_info_key_eq split: if_splits)

lemma update_info_IndexCol:
  fixes info :: "'v info"
  shows "(info_conflict (idx_of info name) ''tz'' (attrs ''tz'') \<longrightarrow>
      snd (update_info IndexCol_info_fields name info attrs) = Some ValueError)
   \<and> (\<not> info_conflict (idx_of info name) ''tz'' (attrs ''tz'') \<longrightarrow>
      (case update_info IndexCol_info_fields name info attrs of
         ((info', attrs', ws'), err) \<Rightarrow>
           err = None
           \<and> (info_conflict (idx_of info name) ''freq'' (attrs ''freq'') \<longrightarrow>
                idx_of info' name ''freq'' = Some None \<and> attrs' ''freq'' = None
                \<and> AttributeConflictWarning ''freq'' (idx_get (idx_of info name) ''freq'') (the (attrs ''freq'')) \<in> set ws')
           \<and> (info_conflict (idx_of info name) ''index_name'' (attrs ''index_name'') \<longrightarrow>
                idx_of info' name ''index_name'' = Some None \<and> attrs' ''index_name'' = None
                \<and> AttributeConflictWarning ''index_name'' (idx_get (idx_of info name) ''index_name'') (the (attrs ''index_name'')) \<in> set ws')))"
proof -
  obtain i1 a1 w1 e1 where s1: "update_info_key name ''freq'' (info, attrs, []) = ((i1, a1, w1), e1)"
    by (metis prod_cases3 surj_pair)
  have e1: "e1 = None"
    using step_no_error [of info name "''freq''" attrs "[]"] s1 by simp
  obtain i2 a2 w2 e2 where s2: "update_info_key name ''tz'' (i1, a1, w1) = ((i2, a2, w2), e2)"
    by (metis prod_cases3 surj_pair)
  have c_tz: "info_conflict (idx_of i1 name) ''tz'' (a1 ''tz'') = info_conflict (idx_of info name) ''tz'' (attrs ''tz'')"
    using step_other_conflict [OF s1, of "''tz''"] by simp
  obtain i3 a3 w3 e3 where s3: "update_info_key name ''index_name'' (i2, a2, w2) = ((i3, a3, w3), e3)"
    by (metis prod_cases3 surj_pair)
  have e3: "e3 = None"
    using step_no_error [of i2 name "''index_name''" a2 w2] s3 by simp
  have run_err: "e2 = Some e \<Longrightarrow> update_info IndexCol_info_fields name info attrs = ((i2, a2, w2), Some e)" for e
    using s1 s2 e1 by (simp add: update_info_def IndexCol_info_fields_def)
  have run_ok: "e2 = None \<Longrightarrow> update_info IndexCol_info_fields name info attrs = ((i3, a3, w3), None)"
    using s1 s2 s3 e1 e3 by (simp add: update_info_def IndexCol_info_fields_def)
  have part1: "info_conflict (idx_of info name) ''tz'' (attrs ''tz'') \<Longrightarrow>
      snd (update_info IndexCol_info_fields name info attrs) = Some ValueError"
  proof -
    assume "info_conflict (idx_of info name) ''tz'' (attrs ''tz'')"
    then have "info_conflict (idx_of i1 name) ''tz'' (a1 ''tz'')" using c_tz by simp
    then have "e2 = Some ValueError"
      using step_raises [of i1 name "''tz''" a1 w1] s2 by simp
    then show ?thesis using run_err by simp
  qed
  have part2: "update_info IndexCol_info_fields name info attrs = ((i3, a3, w3), None)"
    if n: "\<not> info_conflict (idx_of info name) ''tz'' (attrs ''tz'')"
  proof -
    from n have "\<not> info_conflict (idx_of i1 name) ''tz'' (a1 ''tz'')" using c_tz by simp
    then have "e2 = None"
      using step_no_error [of i1 name "''tz''" a1 w1] s2 by simp
    then show ?thesis using run_ok by simp
  qed
  have freq: "idx_of i3 name ''freq'' = Some None \<and> a3 ''freq'' = None
        \<and> AttributeConflictWarning ''freq'' (idx_get (idx_of info name) ''freq'') (the (attrs ''freq'')) \<in> set w3"
    if c: "info_conflict (idx_of info name) ''freq'' (attrs ''freq'')"
  proof -
    from step_warns [of info name "''freq''" attrs "[]"] c s1
    have r1: "i1 = info(name \<mapsto> (idx_of info name)(''freq'' \<mapsto> None))" "a1 = attrs(''freq'' := None)"
      "w1 = [AttributeConflictWarning ''freq'' (idx_get (idx_of info name) ''freq'') (the (attrs ''freq''))]"
      by simp_all
    have "idx_of i1 name ''freq'' = Some None" "a1 ''freq'' = None"
      using r1 by simp_all
    moreover have "idx_of i2 name ''freq'' = idx_of i1 name ''freq''" "a2 ''freq'' = a1 ''freq''"
      using step_other [OF s2, of "''freq''"] by simp_all
    moreover have "idx_of i3 name ''freq'' = idx_of i2 name ''freq''" "a3 ''freq'' = a2 ''freq''"
      using step_other [OF s3, of "''freq''"] by simp_all
    moreover have "set w1 \<subseteq> set w3"
      using step_keeps_warnings [OF s2] step_keeps_warnings [OF s3] by blast
    ultimately show ?thesis using r1(3) by auto
  qed
  have iname: "idx_of i3 name ''index_name'' = Some None \<and> a3 ''index_name'' = None
        \<and> AttributeConflictWarning ''index_name'' (idx_get (idx_of info name) ''index_name'') (the (attrs ''index_name'')) \<in> set w3"
    if c: "info_conflict (idx_of info name) ''index_name'' (attrs ''index_name'')"
  proof -
    have o1: "idx_of i1 name ''index_name'' = idx_of info name ''index_name''" "a1 ''index_name'' = attrs ''index_name''"
      using step_other [OF s1, of "''index_name''"] by simp_all
    have o2: "idx_of i2 name ''index_name'' = idx_of i1 name ''index_name''" "a2 ''index_name'' = a1 ''index_name''"
      using step_other [OF s2, of "''index_name''"] by simp_all
    have c2: "info_conflict (idx_of i2 name) ''index_name'' (a2 ''index_name'')"
      using c o1 o2 by (simp add: info_conflict_def idx_get_def)
    have g: "idx_get (idx_of i2 name) ''index_name'' = idx_get (idx_of info name) ''index_name''"
      using o1 o2 by (simp add: idx_get_def)
    from step_warns [of i2 name "''index_name''" a2 w2] c2 s3
    have "i3 = i2(name \<mapsto> (idx_of i2 name)(''index_name'' \<mapsto> None))" "a3 = a2(''index_name'' := None)"
      "w3 = w2 @ [AttributeConflictWarning ''index_name'' (idx_get (idx_of i2 name) ''index_name'') (the (a2 ''index_name''))]"
      by simp_all
    then show ?thesis using g o1 o2 by simp
  qed
  show ?thesis
    using part1 part2 freq iname by auto
qed

text \<open>
  C8. In \<^verbatim>\<open>update_info\<close>, when the attribute of a key conflicts with the recorded
  value: for \<^verbatim>\<open>freq\<close> and \<^verbatim>\<open>index_name\<close> a warning is emitted, the recorded
  value and the attribute of the column are both set to None, and no exception is
  raised; for any other key ValueError is raised. For an index column, whose keys are
  \<^verbatim>\<open>freq\<close>, \<^verbatim>\<open>tz\<close> and \<^verbatim>\<open>index_name\<close>, the call raises exactly when
  \<^verbatim>\<open>tz\<close> conflicts.
\<close>

theorem update_info_conflicts:
  "(info_conflict (idx_of info name) key (attrs key) \<and> (key = ''freq'' \<or> key = ''index_name'') \<longrightarrow>
      update_info_key name key (info, attrs, ws) =
        ((info(name \<mapsto> (idx_of info name)(key \<mapsto> None)), attrs(key := None),
          ws @ [AttributeConflictWarning key (idx_get (idx_of info name) key) (the (attrs key))]),
         None))
   \<and> (info_conflict (idx_of info name) key (attrs key) \<and> key \<noteq> ''freq'' \<and> key \<noteq> ''index_name'' \<longrightarrow>
      snd (update_info_key name key (info, attrs, ws)) = Some ValueError)
   \<and> (info_conflict (idx_of info name) ''tz'' (attrs ''tz'') \<longrightarrow>
      snd (update_info IndexCol_info_fields name info attrs) = Some ValueError)
   \<and> (\<not> info_conflict (idx_of info name) ''tz'' (attrs ''tz'') \<longrightarrow>
      (case update_info IndexCol_info_fields name info attrs of
         ((info', attrs', ws'), err) \<Rightarrow>
           err = None
           \<and> (info_conflict (idx_of info name) ''freq'' (attrs ''freq'') \<longrightarrow>
                idx_of info' name ''freq'' = Some None \<and> attrs' ''freq'' = None
                \<and> AttributeConflictWarning ''freq'' (idx_get (idx_of info name) ''freq'')
                     (the (attrs ''freq'')) \<in> set ws')
           \<and> (info_conflict (idx_of info name) ''index_name'' (attrs ''index_name'') \<longrightarrow>
                idx_of info' name ''index_name'' = Some None \<and> attrs' ''index_name'' = None
                \<and> AttributeConflictWarning ''index_name'' (idx_get (idx_of info name) ''index_name'')
                     (the (attrs ''index_name'')) \<in> set ws')))"
  using step_warns [of info name key attrs ws] step_raises [of info name key attrs ws]
    update_info_IndexCol [of info name attrs]
  by blast

theorem update_info_conflicts_witness:
  "info_conflict (idx_of demo_info ''index'') ''freq'' (demo_attrs ''freq'')
   \<and> \<not> info_conflict (idx_of demo_info ''index'') ''tz'' (demo_attrs ''tz'')
   \<and> update_info_key ''index'' ''freq'' (demo_info, demo_attrs, []) =
        ((demo_info(''index'' \<mapsto> (idx_of demo_info ''index'')(''freq'' \<mapsto> None)),
          demo_attrs(''freq'' := None),
          [AttributeConflictWarning ''freq'' (Some ''D'') ''H'']), None)
   \<and> snd (update_info IndexCol_info_fields ''index'' demo_info demo_attrs) = None"
proof -
  have i: "idx_of demo_info ''index'' = (\<lambda>k. None)(''freq'' \<mapsto> Some ''D'')"
    by (simp add: idx_of_def get_info_def demo_info_def)
  have c: "info_conflict (idx_of demo_info ''index'') ''freq'' (demo_attrs ''freq'')"
    by (simp add: i info_conflict_def idx_get_def demo_attrs_def)
  have n: "\<not> info_conflict (idx_of demo_info ''index'') ''tz'' (demo_attrs ''tz'')"
    by (simp add: i info_conflict_def idx_get_def demo_attrs_def)
  have g: "idx_get (idx_of demo_info ''index'') ''freq'' = Some ''D''" "the (demo_attrs ''freq'') = ''H''"
    by (simp_all add: i idx_get_def demo_attrs_def)
  from update_info_conflicts [of demo_info "''index''" "''freq''" demo_attrs "[]"] c n g
  show ?thesis by (auto split: prod.splits)
qed

subsection \<open>Reading a fixed-format object\<close>

lemma validate_read_columns:
  "kw ''columns'' = Some (Some c) \<Longrightarrow> validate_read kw = Inl TypeError"
  by (simp add: validate_read_def pop_def)

lemma validate_read_where:
  "kw ''columns'' = None \<or> kw ''columns'' = Some None \<Longrightarrow> kw ''where'' = Some (Some w)
     \<Longrightarrow> validate_read kw = Inl TypeError"
  by (auto simp add: validate_read_def pop_def)
















text \<open>
  For a multi index the start and stop are applied to the values of the levels as well
  as to the codes: with \<^verbatim>\<open>start=1\<close>, the level \<^verbatim>\<open>a, b\<close> with the codes
  \<open>0, 1, 1\<close> is handed to the constructor as the level \<^verbatim>\<open>b\<close> with the codes
  \<open>1, 1\<close>.
\<close>

lemma read_multi_index_slices_levels:
  "read_multi_index no_check
      [(\<lparr>in_data = ArrayNode [''a'', ''b''], in_name = Some ''k''\<rparr>, ArrayNode [0, 1, 1])]
      (Some 1) None
     = Inr (MultiIndex [[''b'']] [[1, 1]] [Some ''k''])"
  by (simp add: read_multi_index_def read_index_node_def read_array_def py_slice_def slice_def
      slice_bound_def no_check_def)




subsection \<open>The width of a string column\<close>

text \<open>
  The claim C2 says that, after a string column was written with the width 5, appending
  a value of length 10 with \<^verbatim>\<open>min_itemsize\<close> of 10 for the column succeeds. The
  existing column is narrower than the size asked for, and the append raises ValueError.
\<close>

theorem string_width_counterexample:
  "set_atom_string ''col''
      \<lparr>sb_inferred = ''string'', sb_columns = [(''col'', ''string'')], sb_data = [''0123456789'']\<rparr>
      (Some \<lparr>ec_kind = ''string'', ec_cname = ''col'', ec_col_itemsize = Some 5\<rparr>)
      (MinDict ((\<lambda>k. None)(''col'' \<mapsto> 10))) None
    = Inl (StringSizeError 10 ''col'' 5)"
  by (simp add: set_atom_string_def convert_string_array_def max_len_string_array_def
      min_itemsize_for_def py_or_def validate_col_def)

text \<open>
  C2, amended. For a block of strings, \<^verbatim>\<open>set_atom_string\<close> probes the longest
  encoded string (at least 1) and raises it to \<^verbatim>\<open>min_itemsize\<close> for the column
  (or its \<^verbatim>\<open>values\<close> default). Without an existing column this is the width. With
  an existing string column, the write raises ValueError when the existing width is
  smaller than that size (so also when it is smaller than the longest string), and
  otherwise the width is the existing one, the largest of the three sizes.
\<close>

theorem string_width:
  assumes "sb_inferred block = ''string'' \<or> check_columns (sb_columns block) = None"
  shows "(existing = None \<longrightarrow>
            set_atom_string name block existing mi enc =
              Inr (max (min_itemsize_for mi name) (snd (convert_string_array enc (sb_data block)))))
     \<and> (\<forall>ec c. existing = Some ec \<and> ec_kind ec = ''string'' \<and> ec_col_itemsize ec = Some c \<longrightarrow>
            (if c < max (min_itemsize_for mi name) (snd (convert_string_array enc (sb_data block)))
             then set_atom_string name block existing mi enc =
                    Inl (StringSizeError
                           (max (min_itemsize_for mi name)
                              (snd (convert_string_array enc (sb_data block))))
                           (ec_cname ec) c)
             else set_atom_string name block existing mi enc =
                    Inr (max c (max (min_itemsize_for mi name)
                                  (snd (convert_string_array enc (sb_data block)))))))"
  using assms by (auto simp add: set_atom_string_def validate_col_def Let_def)

theorem string_width_witness:
  "set_atom_string ''col''
      \<lparr>sb_inferred = ''string'', sb_columns = [(''col'', ''string'')], sb_data = [''0123456789'']\<rparr>
      None (MinDict ((\<lambda>k. None)(''col'' \<mapsto> 10))) None = Inr 10
   \<and> set_atom_string ''col''
      \<lparr>sb_inferred = ''string'', sb_columns = [(''col'', ''string'')], sb_data = [''0123456789'']\<rparr>
      (Some \<lparr>ec_kind = ''string'', ec_cname = ''col'', ec_col_itemsize = Some 5\<rparr>) MinNone None
       = Inl (StringSizeError 10 ''col'' 5)
   \<and> set_atom_string ''col''
      \<lparr>sb_inferred = ''string'', sb_columns = [(''col'', ''string'')], sb_data = [''abc'']\<rparr>
      (Some \<lparr>ec_kind = ''string'', ec_cname = ''col'', ec_col_itemsize = Some 5\<rparr>) MinNone None
       = Inr 5"
proof -
  have p10: "snd (convert_string_array None [''0123456789'']) = 10"
    by (simp add: convert_string_array_def max_len_string_array_def)
  have p3: "snd (convert_string_array None [''abc'']) = 3"
    by (simp add: convert_string_array_def max_len_string_array_def)
  have m10: "min_itemsize_for (MinDict ((\<lambda>k. None)(''col'' \<mapsto> 10))) ''col'' = 10"
    by (simp add: min_itemsize_for_def py_or_def)
  have m0: "min_itemsize_for MinNone ''col'' = 0"
    by (simp add: min_itemsize_for_def)
  have a: "set_atom_string ''col''
      \<lparr>sb_inferred = ''string'', sb_columns = [(''col'', ''string'')], sb_data = [''0123456789'']\<rparr>
      None (MinDict ((\<lambda>k. None)(''col'' \<mapsto> 10))) None = Inr 10"
    using string_width [of "\<lparr>sb_inferred = ''string'', sb_columns = [(''col'', ''string'')], sb_data = [''0123456789'']\<rparr>"
        None "''col''" "MinDict ((\<lambda>k. None)(''col'' \<mapsto> 10))" None]
    by (simp add: p10 m10)
  have b: "set_atom_string ''col''
      \<lparr>sb_inferred = ''string'', sb_columns = [(''col'', ''string'')], sb_data = [''0123456789'']\<rparr>
      (Some \<lparr>ec_kind = ''string'', ec_cname = ''col'', ec_col_itemsize = Some 5\<rparr>) MinNone None
       = Inl (StringSizeError 10 ''col'' 5)"
    using string_width [of "\<lparr>sb_inferred = ''string'', sb_columns = [(''col'', ''string'')], sb_data = [''0123456789'']\<rparr>"
        "Some \<lparr>ec_kind = ''string'', ec_cname = ''col'', ec_col_itemsize = Some 5\<rparr>" "''col''" MinNone None]
    by (simp add: p10 m0)
  have c: "set_atom_string ''col''
      \<lparr>sb_inferred = ''string'', sb_columns = [(''col'', ''string'')], sb_data = [''abc'']\<rparr>
      (Some \<lparr>ec_kind = ''string'', ec_cname = ''col'', ec_col_itemsize = Some 5\<rparr>) MinNone None
       = Inr 5"
    using string_width [of "\<lparr>sb_inferred = ''string'', sb_columns = [(''col'', ''string'')], sb_data = [''abc'']\<rparr>"
        "Some \<lparr>ec_kind = ''string'', ec_cname = ''col'', ec_col_itemsize = Some 5\<rparr>" "''col''" MinNone None]
    by (simp add: p3 m0)
  show ?thesis using a b c by simp
qed

subsection \<open>Categories with null entries\<close>

lemma convert_category_absent: "convert_category None codes = Inr (codes, [])"
  by (simp add: convert_category_def)

text \<open>
  C6. On reading back a categorical whose stored category list has null entries, those
  categories are to be removed and every code other than \<open>-1\<close> lowered by the number
  of removed categories at positions up to the code. The code subtracts the running
  count of nulls position by position from the codes that are not \<open>-1\<close>: for the
  categories \<^verbatim>\<open>a, null, b\<close> and the codes \<open>2, 0, 2\<close> it hands the codes
  \<open>2, -1, 1\<close> to \<^verbatim>\<open>Categorical.from_codes\<close> where the recoding gives
  \<open>1, 0, 1\<close>, and for three codes and two categories the subtraction raises
  ValueError.
\<close>

theorem convert_category_null_categories:
  "convert_category (Some [Some ''a'', None, Some ''b'']) [2, 0, 2] = Inr ([2, - 1, 1], [''a'', ''b''])
   \<and> recode_around_nulls [Some ''a'', None, Some ''b''] [2, 0, 2] = ([1, 0, 1], [''a'', ''b''])
   \<and> convert_category (Some [Some ''a'', None]) [0, 0, 0] = Inl ValueError"
  by (simp add: convert_category_def isub_def cumsum_def recode_around_nulls_def nulls_upto_def
      List.map_filter_simps)

subsection \<open>The coordinates of a selection\<close>

lemma sorted_map_fst_filter_zip:
  "sorted xs \<Longrightarrow> sorted (map fst (filter P (zip xs ys)))"
proof (induction xs arbitrary: ys)
  case Nil
  then show ?case by simp
next
  case (Cons x xs)
  show ?case
  proof (cases ys)
    case Nil
    then show ?thesis by simp
  next
    case (Cons y ys')
    have s: "sorted (map fst (filter P (zip xs ys')))"
      using Cons.IH Cons.prems by simp
    have "\<forall>z \<in> set (map fst (filter P (zip xs ys'))). x \<le> z"
      using Cons.prems by (auto dest: set_zip_leftD)
    with s Cons show ?thesis by simp
  qed
qed

lemma sorted_arange: "sorted (arange a b)"
  by (simp add: arange_def)

lemma init_terms_coordinates:
  "init_terms api wh start stop = Inr sel \<Longrightarrow> coordinates sel = None"
  by (auto simp add: init_terms_def split: sum.splits option.splits prod.splits)

lemma select_coords_without_coordinates:
  "coordinates sel = None \<Longrightarrow> sorted (select_coords found nrows sel)"
  by (simp add: select_coords_def get_where_list_def sorted_arange Let_def split: option.splits)

lemma select_coords_condition:
  "condition sel = Some c \<Longrightarrow> \<exists>s e. select_coords found nrows sel = sort (found c s e)"
  by (auto simp add: select_coords_def get_where_list_def Let_def)

lemma Selection_WCoords:
  assumes "Selection api nrows (WCoords w) start stop = Inr sel" "coordinates sel \<noteq> None"
  shows "coordinates sel = Some w \<and> condition sel = None"
  using assms
  by (auto simp add: Selection_def infer_coordinates_def
      split: if_splits sum.splits option.splits py_error.splits dest: init_terms_coordinates)

lemma Selection_WMask:
  assumes "Selection api nrows (WMask m) start stop = Inr sel"
  shows "condition sel = None \<and> (\<exists>cs. coordinates sel = Some cs \<and> sorted cs)"
  using assms
  by (auto simp add: Selection_def infer_coordinates_def Let_def sorted_map_fst_filter_zip sorted_arange
      split: if_splits sum.splits option.splits py_error.splits)

lemma Selection_other:
  assumes "Selection api nrows wh start stop = Inr sel" "\<forall>w. wh \<noteq> WCoords w" "\<forall>m. wh \<noteq> WMask m"
  shows "coordinates sel = None"
  using assms
  by (cases wh) (auto simp add: Selection_def infer_coordinates_def dest: init_terms_coordinates)

text \<open>
  The claim C4 says that \<^verbatim>\<open>select_coords\<close> returns ascending coordinates also for
  an explicit integer coordinate sequence. The sequence \<open>5, 2\<close> is returned as it
  was given.
\<close>

theorem select_coords_unsorted_counterexample:
  "Selection reject_all 10 (WCoords [5, 2]) None None
     = Inr \<lparr>sel_start = None, sel_stop = None, condition = None, filter_ = None, terms = None,
            coordinates = Some [5, 2]\<rparr>
   \<and> select_coords (\<lambda>c s e. []) 10
        \<lparr>sel_start = None, sel_stop = None, condition = (None :: unit option),
         filter_ = (None :: unit option), terms = (None :: unit option),
         coordinates = Some [5, 2]\<rparr> = [5, 2]
   \<and> \<not> sorted [5, 2 :: int]"
  by (simp add: Selection_def infer_coordinates_def select_coords_def)

text \<open>
  C4, amended. \<^verbatim>\<open>select_coords\<close> returns an explicit integer coordinate sequence
  exactly as it was given, neither sorted nor deduplicated. For every other selection (a
  structured condition, a boolean mask, no predicate, or positions that were not taken as
  coordinates) the coordinates are ascending; for a condition they are the sorted list of
  the coordinates the container finds, duplicates kept.
\<close>

theorem select_coords_order:
  assumes "Selection api nrows wh start stop = Inr sel"
  shows "(\<forall>w. wh = WCoords w \<and> coordinates sel \<noteq> None \<longrightarrow> select_coords found nrows sel = w)
     \<and> ((\<forall>w. wh \<noteq> WCoords w) \<or> coordinates sel = None \<longrightarrow> sorted (select_coords found nrows sel))
     \<and> (\<forall>c. condition sel = Some c \<longrightarrow> (\<exists>s e. select_coords found nrows sel = sort (found c s e)))"
proof (intro conjI allI impI)
  fix w assume "wh = WCoords w \<and> coordinates sel \<noteq> None"
  with Selection_WCoords [of api nrows w start stop sel] assms
  show "select_coords found nrows sel = w"
    by (simp add: select_coords_def)
next
  assume a: "(\<forall>w. wh \<noteq> WCoords w) \<or> coordinates sel = None"
  show "sorted (select_coords found nrows sel)"
  proof (cases "coordinates sel = None")
    case True
    then show ?thesis by (rule select_coords_without_coordinates)
  next
    case False
    with a have nc: "\<forall>w. wh \<noteq> WCoords w" by simp
    have "\<exists>m. wh = WMask m"
    proof (rule ccontr)
      assume "\<not> (\<exists>m. wh = WMask m)"
      then have "\<forall>m. wh \<noteq> WMask m" by simp
      from Selection_other [OF assms nc this] False show False by simp
    qed
    then obtain m where m: "wh = WMask m" ..
    from Selection_WMask [of api nrows m start stop sel] assms m
    show ?thesis by (auto simp add: select_coords_def)
  qed
next
  fix c assume "condition sel = Some c"
  then show "\<exists>s e. select_coords found nrows sel = sort (found c s e)"
    by (rule select_coords_condition)
qed

theorem select_coords_order_witness:
  "Selection reject_all 3 (WMask [True, False, True]) None None
     = Inr \<lparr>sel_start = None, sel_stop = None, condition = None, filter_ = None, terms = None,
            coordinates = Some [0, 2]\<rparr>
   \<and> sorted (select_coords (\<lambda>c s e. []) 3
        \<lparr>sel_start = None, sel_stop = None, condition = (None :: unit option),
         filter_ = (None :: unit option), terms = (None :: unit option),
         coordinates = Some [0, 2]\<rparr>)"
proof -
  have h: "Selection reject_all 3 (WMask [True, False, True]) None None
     = Inr \<lparr>sel_start = None, sel_stop = None, condition = None, filter_ = None, terms = None,
            coordinates = Some [0, 2]\<rparr>"
    by (simp add: Selection_def infer_coordinates_def arange_def upto_rec1)
  from select_coords_order [OF h, of "\<lambda>c s e. []"] h
  show ?thesis by simp
qed

subsection \<open>Masks and positions given as the predicate\<close>

lemma arange_Cons: "length (arange s e) = Suc n \<Longrightarrow> arange s e = s # arange (s + 1) e"
  by (simp add: arange_def upto_rec1 split: if_splits)

lemma mask_positions:
  "length m = length (arange s e) \<Longrightarrow>
     map fst (filter snd (zip (arange s e) m)) = map (\<lambda>i. s + int i) (filter (\<lambda>i. m ! i) [0..<length m])"
proof (induction m arbitrary: s)
  case Nil
  then show ?case by simp
next
  case (Cons b m)
  from Cons.prems have a: "arange s e = s # arange (s + 1) e"
    using arange_Cons [of s e "length m"] by simp
  with Cons.prems have l: "length m = length (arange (s + 1) e)" by simp
  have u: "[0..<length (b # m)] = 0 # map Suc [0..<length m]"
    by (simp add: upt_conv_Cons map_Suc_upt del: upt_Suc)
  show ?case
    by (simp only: u a) (simp add: Cons.IH [OF l] filter_map comp_def del: upt_Suc)
qed

lemma Selection_mask:
  assumes "s = (case start of None \<Rightarrow> 0 | Some s \<Rightarrow> s)"
    and "e = (case stop of None \<Rightarrow> int nrows | Some e \<Rightarrow> e)"
    and "length m = length (arange s e)"
  shows "Selection api nrows (WMask m) start stop =
           Inr \<lparr>sel_start = start, sel_stop = stop, condition = None, filter_ = None,
                terms = None,
                coordinates = Some (map (\<lambda>i. s + int i) (filter (\<lambda>i. m ! i) [0..<length m]))\<rparr>"
  using assms mask_positions [of m s e]
  by (simp add: Selection_def infer_coordinates_def Let_def)

text \<open>
  C5. A boolean mask gives the positions of its True entries offset by start
  (\<open>Selection_mask\<close>). Integer positions below start or at or above stop are to
  raise a range error. The ValueError of the range check is raised inside the
  \<^verbatim>\<open>try\<close> block and caught by its \<^verbatim>\<open>except ValueError: pass\<close>: the
  constructor goes on as if the positions were an expression, and its outcome is the one
  of the expression collaborator. With a collaborator that accepts the array, the
  positions \<open>0, 1, 2\<close> with start \<open>1\<close> give a selection without coordinates,
  which selects the rows \<open>1, 2\<close>.
\<close>

theorem selection_out_of_range_positions:
  "Selection api 3 (WCoords [0, 1, 2]) (Some 1) None
     = init_terms api (WCoords [0, 1, 2]) (Some 1) None
   \<and> Selection accept_all 3 (WCoords [0, 1, 2]) (Some 1) None
     = Inr \<lparr>sel_start = Some 1, sel_stop = None, condition = None, filter_ = None,
            terms = Some (), coordinates = None\<rparr>
   \<and> select_coords found 3
        \<lparr>sel_start = Some 1, sel_stop = None, condition = (None :: unit option),
         filter_ = (None :: unit option), terms = Some (), coordinates = None\<rparr> = [1, 2]"
  by (simp add: Selection_def infer_coordinates_def init_terms_def generate_def accept_all_def
      select_coords_def arange_def upto_rec1)

subsection \<open>Appending in chunks\<close>

lemma unmasked_Nil [simp]: "unmasked [] msk = []"
  by (simp add: unmasked_def split: option.splits)

lemma chunk_ops_beyond: "length rows \<le> i * cs \<Longrightarrow> chunk_ops cs rows msk i = []"
  by (simp add: chunk_ops_def slice_def Let_def)

lemma chunk_ops_beyond_all:
  "length rows \<le> i * cs \<Longrightarrow> concat (map (chunk_ops cs rows msk) [i..<n]) = []"
proof -
  assume a: "length rows \<le> i * cs"
  have "\<And>j. j \<in> set [i..<n] \<Longrightarrow> chunk_ops cs rows msk j = []"
  proof -
    fix j assume "j \<in> set [i..<n]"
    then have "i \<le> j" by simp
    then have "i * cs \<le> j * cs" by (rule mult_le_mono1)
    with a have "length rows \<le> j * cs" by (rule order_trans)
    then show "chunk_ops cs rows msk j = []" by (rule chunk_ops_beyond)
  qed
  then show ?thesis by simp
qed

lemma chunk_end_gt: "0 < cs \<Longrightarrow> i * cs < n \<Longrightarrow> i * cs < chunk_end cs n i"
  by (simp add: chunk_end_def)

lemma chunk_end_le: "n \<le> i * cs \<Longrightarrow> chunk_end cs n i \<le> i * cs"
  by (simp add: chunk_end_def)

lemma write_data_chunk_nonempty:
  assumes "list_all (\<lambda>w. 0 < w) vsizes" "chunk \<noteq> []"
  shows "write_data_chunk chunk msk vsizes =
           (if unmasked chunk msk \<noteq> [] then [Append (unmasked chunk msk), Flush] else [])"
  using assms by (auto simp add: write_data_chunk_def list_ex_iff list_all_iff Let_def)

lemma write_data_chunk_chunk_ops:
  assumes "list_all (\<lambda>w. 0 < w) vsizes" "0 < cs" "i * cs < length rows"
  shows "write_data_chunk (slice (i * cs) (chunk_end cs (length rows) i) rows)
           (map_option (slice (i * cs) (chunk_end cs (length rows) i)) msk) vsizes
         = chunk_ops cs rows msk i"
proof -
  have "slice (i * cs) (chunk_end cs (length rows) i) rows \<noteq> []"
    using chunk_end_gt [OF assms(2,3)] assms(3) by (simp add: slice_def)
  from write_data_chunk_nonempty [OF assms(1) this] show ?thesis
    by (simp add: chunk_ops_def Let_def)
qed

lemma write_chunks_upt:
  assumes "0 < cs" "list_all (\<lambda>w. 0 < w) vsizes"
  shows "write_chunks cs rows msk vsizes [i..<n] = concat (map (chunk_ops cs rows msk) [i..<n])"
proof (induction "n - i" arbitrary: i)
  case 0
  then show ?case by simp
next
  case (Suc k)
  then have lt: "i < n" by simp
  then have u: "[i..<n] = i # [Suc i..<n]" by (simp add: upt_conv_Cons)
  have ih: "write_chunks cs rows msk vsizes [Suc i..<n] = concat (map (chunk_ops cs rows msk) [Suc i..<n])"
    using Suc by simp
  show ?case
  proof (cases "length rows \<le> i * cs")
    case True
    then have "write_chunks cs rows msk vsizes [i..<n] = []"
      using chunk_end_le [OF True] by (simp add: u Let_def)
    with chunk_ops_beyond_all [OF True, of msk n] show ?thesis by simp
  next
    case False
    then have l: "i * cs < length rows" by simp
    have "\<not> chunk_end cs (length rows) i \<le> i * cs"
      using chunk_end_gt [OF assms(1) l] by simp
    then have "write_chunks cs rows msk vsizes [i..<n] =
            chunk_ops cs rows msk i @ write_chunks cs rows msk vsizes [Suc i..<n]"
      using write_data_chunk_chunk_ops [OF assms(2) assms(1) l, of msk]
      by (simp add: u Let_def)
    with ih show ?thesis by (simp add: u)
  qed
qed

lemma appended_append [simp]: "appended (xs @ ys) = appended xs @ appended ys"
  by (induction xs rule: appended.induct) simp_all

lemma appended_chunk_ops:
  "appended (chunk_ops cs rows msk i) =
     unmasked (slice (i * cs) (chunk_end cs (length rows) i) rows)
       (map_option (slice (i * cs) (chunk_end cs (length rows) i)) msk)"
  by (simp add: chunk_ops_def Let_def)

lemma chunk_of:
  assumes "length zs \<le> n"
  shows "slice (k * cs) (chunk_end cs n k) zs = take cs (drop (k * cs) zs)"
proof (cases "(k + 1) * cs \<le> n")
  case True
  then show ?thesis by (simp add: slice_def chunk_end_def min_def)
next
  case False
  then have "length (drop (k * cs) zs) \<le> n - k * cs" "n - k * cs \<le> cs"
    using assms by auto
  then show ?thesis using False by (simp add: slice_def chunk_end_def min_def)
qed

lemma take_chunk: "take (k * cs) zs @ take cs (drop (k * cs) zs) = take (Suc k * cs) zs"
  using take_add [of "k * cs" cs zs] by (simp add: add.commute)

lemma unmasked_slice:
  "unmasked (slice a b rows) (map_option (slice a b) msk) =
     (case msk of None \<Rightarrow> slice a b rows
      | Some m \<Rightarrow> map fst (filter (\<lambda>p. \<not> snd p) (slice a b (zip rows m))))"
  by (simp add: unmasked_def slice_def take_zip drop_zip split: option.splits)

lemma unmasked_slice_Some:
  "unmasked (slice a b rows) (Some (slice a b m)) =
     map fst (filter (\<lambda>p. \<not> snd p) (slice a b (zip rows m)))"
  by (simp add: unmasked_def slice_def take_zip drop_zip)

lemma appended_chunks:
  "appended (concat (map (chunk_ops cs rows msk) [0..<k])) =
     (case msk of None \<Rightarrow> take (k * cs) rows
      | Some m \<Rightarrow> map fst (filter (\<lambda>p. \<not> snd p) (take (k * cs) (zip rows m))))"
proof (induction k)
  case 0
  then show ?case by (simp split: option.splits)
next
  case (Suc k)
  show ?case
  proof (cases msk)
    case None
    have c: "slice (k * cs) (chunk_end cs (length rows) k) rows = take cs (drop (k * cs) rows)"
      by (rule chunk_of) simp
    have "appended (concat (map (chunk_ops cs rows msk) [0..<Suc k])) =
            take (k * cs) rows @ take cs (drop (k * cs) rows)"
      using Suc None c by (simp add: appended_chunk_ops unmasked_def)
    then show ?thesis
      using None by (simp only: take_chunk option.case)
  next
    case (Some m)
    have c: "slice (k * cs) (chunk_end cs (length rows) k) (zip rows m) = take cs (drop (k * cs) (zip rows m))"
      by (rule chunk_of) simp
    have "appended (concat (map (chunk_ops cs rows msk) [0..<Suc k])) =
            map fst (filter (\<lambda>p. \<not> snd p) (take (k * cs) (zip rows m) @ take cs (drop (k * cs) (zip rows m))))"
      using Suc Some c by (simp add: appended_chunk_ops unmasked_slice_Some)
    then show ?thesis
      using Some by (simp only: take_chunk option.case)
  qed
qed

lemma div_covers: "0 < (cs::nat) \<Longrightarrow> n \<le> (n div cs + 1) * cs"
  using dividend_less_div_times [of cs n] by simp

lemma appended_all_chunks:
  assumes "0 < cs"
  shows "appended (concat (map (chunk_ops cs rows msk) [0..<length rows div cs + 1])) = unmasked rows msk"
proof -
  have c: "length rows \<le> (length rows div cs + 1) * cs"
    using assms by (rule div_covers)
  then have z: "length (zip rows m) \<le> (length rows div cs + 1) * cs" for m :: "bool list"
    by simp
  show ?thesis
    unfolding appended_chunks using c z
    by (simp add: unmasked_def split: option.splits)
qed

lemma apply_ops_Cons: "apply_ops (op # ops) node = apply_ops ops (apply_op op node)"
  by (simp add: apply_ops_def)

lemma apply_ops_append_flush:
  "list_all (\<lambda>op. op = Flush \<or> (\<exists>r. op = Append r)) ops \<Longrightarrow>
     apply_ops ops (Some t) = Some (t @ appended ops)"
proof (induction ops arbitrary: t)
  case Nil
  then show ?case by (simp add: apply_ops_def)
next
  case (Cons op ops)
  then show ?case by (auto simp add: apply_ops_Cons)
qed

lemma chunk_ops_append_flush:
  "list_all (\<lambda>op. op = Flush \<or> (\<exists>r. op = Append r)) (concat (map (chunk_ops cs rows msk) is))"
  by (induction "is") (simp_all add: chunk_ops_def Let_def)

text \<open>
  C7. For a positive chunk size \<open>cs\<close> (100000 when the caller passes none) and value
  blocks that are not empty, \<^verbatim>\<open>write_data\<close> issues, for the chunks
  \<open>[i * cs, min ((i + 1) * cs) nrows)\<close> in ascending order, the append of the rows of
  the chunk that the mask does not mark, followed by a flush, for each chunk that has such
  a row. The rows appended are the rows that the mask does not mark, each once and in
  order, and they are what the table gains.
\<close>

theorem write_data_chunks:
  assumes "cs = (case chunksize of None \<Rightarrow> 100000 | Some c \<Rightarrow> c)" "0 < cs"
    and "list_all (\<lambda>w. 0 < w) vsizes"
  shows "write_data chunksize rows msk vsizes =
           Inr (concat (map (chunk_ops (nat cs) rows msk) [0..<length rows div nat cs + 1]))
     \<and> appended (concat (map (chunk_ops (nat cs) rows msk) [0..<length rows div nat cs + 1]))
         = unmasked rows msk
     \<and> apply_ops (concat (map (chunk_ops (nat cs) rows msk) [0..<length rows div nat cs + 1]))
          (Some t) = Some (t @ unmasked rows msk)"
proof -
  have n: "0 < nat cs" using assms(2) by simp
  have d: "nat (int (length rows) div cs) = length rows div nat cs"
    using assms(2) by (simp add: nat_div_distrib)
  have w: "write_data chunksize rows msk vsizes =
      Inr (write_chunks (nat cs) rows msk vsizes [0..<length rows div nat cs + 1])"
    using assms(1,2) d by (simp add: write_data_def Let_def)
  have a: "appended (concat (map (chunk_ops (nat cs) rows msk) [0..<length rows div nat cs + 1]))
         = unmasked rows msk"
    using n by (rule appended_all_chunks)
  show ?thesis
    using w a write_chunks_upt [OF n assms(3), of rows msk 0 "length rows div nat cs + 1"]
      apply_ops_append_flush [OF chunk_ops_append_flush, of "nat cs" rows msk "[0..<length rows div nat cs + 1]" t]
    by simp
qed

theorem write_data_chunks_witness:
  "(2::int) = (case Some 2 of None \<Rightarrow> 100000 | Some c \<Rightarrow> c) \<and> (0::int) < 2
   \<and> list_all (\<lambda>w. 0 < w) [1::nat]
   \<and> write_data (Some 2) [1, 2, 3, 4, 5 :: nat] (Some [False, True, False, False, False]) [1]
        = Inr [Append [1], Flush, Append [3, 4], Flush, Append [5], Flush]"
proof -
  have h1: "(2::int) = (case Some 2 of None \<Rightarrow> 100000 | Some c \<Rightarrow> c)" by simp
  have h2: "(0::int) < 2" by simp
  have h3: "list_all (\<lambda>w. 0 < w) [1::nat]" by simp
  have e: "concat (map (chunk_ops (nat 2) [1, 2, 3, 4, 5 :: nat] (Some [False, True, False, False, False]))
             [0..<length [1, 2, 3, 4, 5 :: nat] div nat 2 + 1])
           = [Append [1], Flush, Append [3, 4], Flush, Append [5], Flush]"
    by (simp add: chunk_ops_def chunk_end_def slice_def unmasked_def upt_rec Let_def)
  from write_data_chunks [OF h1 h2 h3, of "[1, 2, 3, 4, 5 :: nat]" "Some [False, True, False, False, False]"] e h1 h2 h3
  show ?thesis by simp
qed

end
